theory Spec2Isabelle
  imports Complex_Main "HOL-Library.AList" "HOL-Library.Log_Nat"
begin

section \<open>Python values used by the monitoring core\<close>

text \<open>
  The monitoring core of the repository is four Python classes: \<open>MetricsCollector\<close>
  (monitoring/metrics.py), \<open>DriftDetector\<close> (monitoring/drift_detector.py),
  \<open>RetrainingTrigger\<close> (retraining/trigger.py) and \<open>NotificationManager\<close>
  (notifications/alerts.py). Each class is embedded as a record of its attributes and
  each method as a function from the old object to the new one (and the returned value).

  Conventions of the embedding:
  \<^item> Python \<open>int\<close> is \<open>int\<close>;
  \<^item> Python \<open>float\<close> and numpy's \<open>float64\<close> are the real numbers that a binary64
    double can hold: every arithmetic operation on them gives the exact result rounded
    to the nearest double, a tie going to the even one (\<open>fl\<close> below), and a comparison
    compares the exact values. Infinities and NaN are not modelled: a result beyond the
    largest double does not arise from counters, lengths and latencies of ordinary
    size;
  \<^item> a \<open>datetime\<close> is the number of microseconds since the epoch, read from the clock
    by the caller and passed in where the source calls \<open>datetime.now()\<close>;
  \<^item> a \<open>dict\<close> with string keys and a fixed set of optional keys is a record of
    \<open>option\<close> fields; a \<open>dict\<close> used as a histogram is an association list with
    distinct keys, in insertion order;
  \<^item> a \<open>str\<close> is a \<open>string\<close>; its length counts characters;
  \<^item> calls of the logger write output only and are left out.
\<close>

type_synonym datetime = int

text \<open>The slice \<open>xs[k:]\<close>: a negative \<open>k\<close> counts from the end, and both ends clamp.\<close>

definition slice_from :: "int \<Rightarrow> 'a list \<Rightarrow> 'a list" where
  "slice_from k xs =
     (if k < 0 then drop (nat (int (length xs) + k)) xs else drop (nat k) xs)"

text \<open>The slice \<open>xs[:k]\<close>.\<close>

definition slice_to :: "int \<Rightarrow> 'a list \<Rightarrow> 'a list" where
  "slice_to k xs =
     (if k < 0 then take (nat (int (length xs) + k)) xs else take (nat k) xs)"

subsection \<open>Doubles\<close>

text \<open>The nearest integer, a tie going to the even one.\<close>

definition round_half_even :: "real \<Rightarrow> int" where
  "round_half_even y =
     (let f = \<lfloor>y\<rfloor>; d = y - of_int f
      in if d < 1 / 2 then f else if 1 / 2 < d then f + 1
         else if even f then f else f + 1)"

text \<open>
  The binary exponent of a positive real \<open>x\<close>, that is, the \<open>e\<close> with
  \<open>2 ^ e \<le> x < 2 ^ (e + 1)\<close>, computed from the bit length of an integer.
\<close>

definition binade :: "real \<Rightarrow> int" where
  "binade x = (if 1 \<le> x then bitlen \<lfloor>x\<rfloor> - 1 else - bitlen (\<lceil>1 / x\<rceil> - 1))"

text \<open>
  Rounding to the nearest double: a double with binary exponent \<open>e\<close> is a multiple of
  \<open>2 ^ (e - 52)\<close>, and below the exponent \<open>-1022\<close> the spacing of the doubles stays
  \<open>2 ^ -1074\<close>.
\<close>

definition fl :: "real \<Rightarrow> real" where
  "fl x =
     (if x = 0 then 0
      else (let e = max (binade \<bar>x\<bar>) (- 1022); q = 2 powi (e - 52)
            in of_int (round_half_even (x / q)) * q))"

text \<open>
  The operations \<open>+\<close>, \<open>-\<close>, \<open>*\<close> and \<open>/\<close> on doubles (an \<open>int\<close> operand of ordinary
  size is converted without loss), and \<open>/\<close> on two \<open>int\<close>s, which gives the double
  nearest to the quotient.
\<close>

definition fadd :: "real \<Rightarrow> real \<Rightarrow> real" where
  "fadd x y = fl (x + y)"

definition fsub :: "real \<Rightarrow> real \<Rightarrow> real" where
  "fsub x y = fl (x - y)"

definition fmul :: "real \<Rightarrow> real \<Rightarrow> real" where
  "fmul x y = fl (x * y)"

definition fdiv :: "real \<Rightarrow> real \<Rightarrow> real" where
  "fdiv x y = fl (x / y)"

definition int_truediv :: "int \<Rightarrow> int \<Rightarrow> real" where
  "int_truediv a b = fl (real_of_int a / real_of_int b)"

text \<open>
  \<open>round(x, n)\<close> on a Python \<open>float\<close>: the exact value of \<open>x\<close> is rounded to the nearest
  multiple of \<open>10 ^ -n\<close>, a tie going to the even one, and the result is the double
  nearest to that decimal.
\<close>

definition py_round :: "real \<Rightarrow> nat \<Rightarrow> real" where
  "py_round x n = fl (of_int (round_half_even (x * 10 ^ n)) / 10 ^ n)"

text \<open>
  \<open>round(x, n)\<close> on a numpy \<open>float64\<close>, which goes through \<open>numpy.round\<close>: the double
  is multiplied by \<open>10 ^ n\<close>, rounded to the nearest integer and divided by \<open>10 ^ n\<close>,
  each of the two operations rounding to a double.
\<close>

definition np_round :: "real \<Rightarrow> nat \<Rightarrow> real" where
  "np_round x n = fdiv (of_int (round_half_even (fmul x (10 ^ n)))) (10 ^ n)"

text \<open>
  The builtin \<open>sum\<close> of a list of floats: additions from left to right, each one
  rounding. (CPython from 3.12 on carries a correction term along, which can change the
  last bits of the sum; no statement below depends on them.)
\<close>

definition py_sum :: "real list \<Rightarrow> real" where
  "py_sum xs = foldl fadd 0 xs"

text \<open>
  The sum that numpy forms of an array of doubles (its pairwise summation): below 8
  elements from left to right; up to 128 elements with eight running sums over the
  blocks of eight, combined in pairs, and the remaining elements added one by one;
  above that the array is cut near the middle, at a multiple of eight.
\<close>

fun block_sums :: "real list \<Rightarrow> real list \<Rightarrow> real list \<times> real list" where
  "block_sums r rest =
     (if length rest < 8 then (r, rest)
      else block_sums (map (\<lambda>(x, y). fadd x y) (zip r (take 8 rest))) (drop 8 rest))"

declare block_sums.simps [simp del]

definition unrolled_sum :: "real list \<Rightarrow> real" where
  "unrolled_sum a =
     (let (r, rest) = block_sums (take 8 a) (drop 8 a);
          res = fadd (fadd (fadd (r ! 0) (r ! 1)) (fadd (r ! 2) (r ! 3)))
                     (fadd (fadd (r ! 4) (r ! 5)) (fadd (r ! 6) (r ! 7)))
      in foldl fadd res rest)"

function pairwise_sum :: "real list \<Rightarrow> real" where
  "pairwise_sum a =
     (if length a < 8 then foldl fadd 0 a
      else if length a \<le> 128 then unrolled_sum a
      else (let n2 = length a div 2; n2 = n2 - n2 mod 8
            in fadd (pairwise_sum (take n2 a)) (pairwise_sum (drop n2 a))))"
  by pat_completeness auto
termination
proof (relation "measure length")
  show "wf (measure length)" by simp
next
  fix a :: "real list" and x xa
  assume "\<not> length a \<le> 128" "x = length a div 2" "xa = x - x mod 8"
  then have "0 < xa" "xa < length a" by arith+
  then show "(take xa a, a) \<in> measure length" "(drop xa a, a) \<in> measure length"
    by simp_all
qed

declare pairwise_sum.simps [simp del]

text \<open>
  \<open>numpy.mean\<close> and \<open>numpy.std\<close> (the population standard deviation) of a non-empty
  list of numbers: the list becomes an array of doubles, the mean is its sum divided by
  its length, and the standard deviation is the square root, rounded to a double, of
  the mean of the squared differences from the mean.
\<close>

definition np_mean :: "real list \<Rightarrow> real" where
  "np_mean xs = fdiv (pairwise_sum (map fl xs)) (real (length xs))"

definition np_std :: "real list \<Rightarrow> real" where
  "np_std xs =
     (let arrmean = np_mean xs;
          x = map (\<lambda>v. fsub (fl v) arrmean) xs;
          x = map (\<lambda>d. fmul d d) x
      in fl (sqrt (fdiv (pairwise_sum x) (real (length xs)))))"

text \<open>\<open>timedelta.total_seconds()\<close>: the microseconds divided by \<open>10 ** 6\<close>.\<close>

definition total_seconds :: "int \<Rightarrow> real" where
  "total_seconds td = int_truediv td 1000000"

text \<open>Histogram dictionaries: \<open>d.get(k, dflt)\<close>, \<open>k in d\<close> and \<open>d[k] = v\<close>.\<close>

definition dict_get :: "('k \<times> 'v) list \<Rightarrow> 'k \<Rightarrow> 'v \<Rightarrow> 'v" where
  "dict_get d k dflt = (case map_of d k of None \<Rightarrow> dflt | Some v \<Rightarrow> v)"

definition dict_contains :: "('k \<times> 'v) list \<Rightarrow> 'k \<Rightarrow> bool" where
  "dict_contains d k = (map_of d k \<noteq> None)"

definition dict_set :: "('k \<times> 'v) list \<Rightarrow> 'k \<Rightarrow> 'v \<Rightarrow> ('k \<times> 'v) list" where
  "dict_set d k v = AList.update k v d"

section \<open>MetricsCollector\<close>

record metrics_collector =
  api_calls :: int
  successful_responses :: int
  failed_responses :: int
  avg_response_time :: "real list"
  chromadb_queries :: int
  properties_returned :: "int list"
  query_types :: "(string \<times> int) list"
  start_time :: datetime

definition metrics_init :: "datetime \<Rightarrow> metrics_collector" where
  "metrics_init now =
     \<lparr>api_calls = 0, successful_responses = 0, failed_responses = 0,
      avg_response_time = [], chromadb_queries = 0, properties_returned = [],
      query_types = [], start_time = now\<rparr>"

definition record_api_call ::
  "bool \<Rightarrow> real \<Rightarrow> int \<Rightarrow> string \<Rightarrow> metrics_collector \<Rightarrow> metrics_collector" where
  "record_api_call success response_time properties_count query_type m =
     (let m1 = m\<lparr>api_calls := api_calls m + 1\<rparr>;
          m2 = (if success
                then m1\<lparr>successful_responses := successful_responses m1 + 1\<rparr>
                else m1\<lparr>failed_responses := failed_responses m1 + 1\<rparr>);
          m3 = m2\<lparr>avg_response_time := avg_response_time m2 @ [response_time]\<rparr>;
          m4 = m3\<lparr>properties_returned := properties_returned m3 @ [properties_count]\<rparr>;
          m5 = m4\<lparr>chromadb_queries := chromadb_queries m4 + 1\<rparr>;
          m6 = (if \<not> dict_contains (query_types m5) query_type
                then m5\<lparr>query_types := dict_set (query_types m5) query_type 0\<rparr>
                else m5)
      in m6\<lparr>query_types :=
               dict_set (query_types m6) query_type
                 (dict_get (query_types m6) query_type 0 + 1)\<rparr>)"

text \<open>The arguments of one call of \<open>record_api_call\<close>, and a sequence of calls.\<close>

datatype api_call = ApiCall bool real int string

fun call_success :: "api_call \<Rightarrow> bool" where
  "call_success (ApiCall success response_time properties_count query_type) = success"

fun record_call :: "metrics_collector \<Rightarrow> api_call \<Rightarrow> metrics_collector" where
  "record_call m (ApiCall success response_time properties_count query_type) =
     record_api_call success response_time properties_count query_type m"

definition record_calls :: "api_call list \<Rightarrow> metrics_collector \<Rightarrow> metrics_collector" where
  "record_calls cs m = foldl record_call m cs"

record metrics_snapshot =
  total_api_calls :: int
  snap_successful_responses :: int
  snap_failed_responses :: int
  success_rate_percent :: real
  avg_response_time_seconds :: real
  snap_avg_properties_returned :: real
  snap_chromadb_queries :: int
  snap_query_types :: "(string \<times> int) list"
  uptime_seconds :: real
  snap_timestamp :: datetime

text \<open>
  \<open>get_metrics\<close> reads the clock twice: \<open>now_uptime\<close> for the uptime and \<open>now_stamp\<close>
  for the timestamp of the snapshot. The response times are floats and are added by
  the builtin \<open>sum\<close>; the counters and the property counts are \<open>int\<close>s, so that each
  of their quotients is one division of two \<open>int\<close>s.
\<close>

definition get_metrics :: "datetime \<Rightarrow> datetime \<Rightarrow> metrics_collector \<Rightarrow> metrics_snapshot" where
  "get_metrics now_uptime now_stamp m =
     (let avg_response =
            (if avg_response_time m \<noteq> []
             then fdiv (py_sum (avg_response_time m)) (real (length (avg_response_time m)))
             else 0);
          avg_properties =
            (if properties_returned m \<noteq> []
             then int_truediv (sum_list (properties_returned m))
                    (int (length (properties_returned m)))
             else 0);
          success_rate =
            (if api_calls m > 0
             then fmul (int_truediv (successful_responses m) (api_calls m)) 100
             else 0);
          uptime = total_seconds (now_uptime - start_time m)
      in \<lparr>total_api_calls = api_calls m,
          snap_successful_responses = successful_responses m,
          snap_failed_responses = failed_responses m,
          success_rate_percent = py_round success_rate 2,
          avg_response_time_seconds = py_round avg_response 3,
          snap_avg_properties_returned = py_round avg_properties 1,
          snap_chromadb_queries = chromadb_queries m,
          snap_query_types = query_types m,
          uptime_seconds = py_round uptime 0,
          snap_timestamp = now_stamp\<rparr>)"

text \<open>The numbers of successful and of failed calls in a sequence of calls.\<close>

definition successes :: "api_call list \<Rightarrow> nat" where
  "successes cs = length (filter call_success cs)"

definition failures :: "api_call list \<Rightarrow> nat" where
  "failures cs = length (filter (\<lambda>c. \<not> call_success c) cs)"

section \<open>DriftDetector\<close>

text \<open>
  The dictionary passed to \<open>record_query\<close>. Every key is optional: the statistics read
  each of them with \<open>q.get(key, default)\<close>, and \<open>record_query\<close> itself stores the
  timestamp. The count of properties and the response time are numbers, an \<open>int\<close> or a
  float.
\<close>

record query_data =
  query :: "string option"
  properties_count :: "real option"
  response_time :: "real option"
  query_type :: "string option"
  neighborhood :: "string option"
  timestamp :: "datetime option"

text \<open>\<open>q.get(key, dflt)\<close> on an optional key.\<close>

definition get_or :: "'a option \<Rightarrow> 'a \<Rightarrow> 'a" where
  "get_or v dflt = (case v of None \<Rightarrow> dflt | Some x \<Rightarrow> x)"

text \<open>\<open>collections.Counter\<close> over a list, as a dictionary in order of first occurrence.\<close>

definition Counter :: "'k list \<Rightarrow> ('k \<times> int) list" where
  "Counter xs = foldl (\<lambda>d x. dict_set d x (dict_get d x 0 + 1)) [] xs"

text \<open>
  The dictionary of statistics. The key \<open>avg_response_time\<close> is the field
  \<open>stats_avg_response_time\<close>.
\<close>

record statistics =
  avg_query_length :: real
  std_query_length :: real
  avg_properties_returned :: real
  stats_avg_response_time :: real
  query_type_distribution :: "(string \<times> int) list"
  neighborhood_distribution :: "(string \<times> int) list"
  total_queries :: int

definition calculate_statistics :: "query_data list \<Rightarrow> statistics" where
  "calculate_statistics queries =
     (let query_lengths = map (\<lambda>q. real (length (get_or (query q) []))) queries;
          properties_counts = map (\<lambda>q. get_or (properties_count q) 0) queries;
          response_times = map (\<lambda>q. get_or (response_time q) 0) queries;
          qtypes = map (\<lambda>q. get_or (query_type q) ''unknown'') queries;
          type_distribution = Counter qtypes;
          neighborhoods = List.map_filter neighborhood queries;
          neighborhood_dist = Counter neighborhoods
      in \<lparr>avg_query_length = (if query_lengths \<noteq> [] then np_mean query_lengths else 0),
          std_query_length = (if query_lengths \<noteq> [] then np_std query_lengths else 0),
          avg_properties_returned =
            (if properties_counts \<noteq> [] then np_mean properties_counts else 0),
          stats_avg_response_time =
            (if response_times \<noteq> [] then np_mean response_times else 0),
          query_type_distribution = type_distribution,
          neighborhood_distribution = neighborhood_dist,
          total_queries = int (length queries)\<rparr>)"

text \<open>
  \<open>_distribution_difference\<close>. Each count is divided by the total, an \<open>int\<close> by an
  \<open>int\<close>. The source iterates over the set of all keys, in an order that the set
  decides from the hashes of the keys; since the additions round, the order can show
  in the last bits of the sum. The order is the parameter \<open>rank\<close>: the keys are visited
  by increasing rank, and every order of the keys is the order of some rank.
\<close>

definition distribution_difference ::
  "(string \<Rightarrow> nat) \<Rightarrow> (string \<times> int) list \<Rightarrow> (string \<times> int) list \<Rightarrow> real" where
  "distribution_difference rank dist1 dist2 =
     (let total1 = sum_list (map snd dist1);
          total2 = sum_list (map snd dist2)
      in if total1 = 0 \<or> total2 = 0 then 0
         else
           (let norm_dist1 = map (\<lambda>(k, v). (k, int_truediv v total1)) dist1;
                norm_dist2 = map (\<lambda>(k, v). (k, int_truediv v total2)) dist2;
                all_keys = sort_key rank (remdups (map fst norm_dist1 @ map fst norm_dist2));
                diff_sum =
                  foldl (\<lambda>acc key.
                           fadd acc \<bar>fsub (dict_get norm_dist1 key 0) (dict_get norm_dist2 key 0)\<bar>)
                    0 all_keys
            in fdiv diff_sum 2))"

definition numerical_features :: "(statistics \<Rightarrow> real) list" where
  "numerical_features = [avg_query_length, avg_properties_returned, stats_avg_response_time]"

text \<open>The scores that the loop over the numerical features appends, in order.\<close>

definition feature_scores :: "statistics \<Rightarrow> statistics \<Rightarrow> real list" where
  "feature_scores baseline current =
     concat (map (\<lambda>feature.
        (let baseline_val = feature baseline; current_val = feature current
         in if baseline_val > 0
            then [min (fdiv \<bar>fsub current_val baseline_val\<bar> baseline_val) 1]
            else [])) numerical_features)"

text \<open>
  The result is \<open>numpy.mean\<close> of the scores, a numpy \<open>float64\<close>, or the float \<open>0.0\<close>
  where there is no score.
\<close>

definition calculate_drift_score :: "(string \<Rightarrow> nat) \<Rightarrow> statistics \<Rightarrow> statistics \<Rightarrow> real" where
  "calculate_drift_score rank baseline current =
     (let scores = feature_scores baseline current;
          baseline_types = query_type_distribution baseline;
          current_types = query_type_distribution current;
          scores = (if baseline_types \<noteq> [] \<and> current_types \<noteq> []
                    then scores @ [distribution_difference rank baseline_types current_types]
                    else scores)
      in if scores \<noteq> [] then np_mean scores else 0)"

text \<open>
  The two dictionaries that \<open>detect_drift\<close> returns: the one for too few samples and
  the report. In the report the keys \<open>baseline_stats\<close> and \<open>timestamp\<close> are the fields
  \<open>report_baseline_stats\<close> and \<open>report_timestamp\<close>.
\<close>

record insufficient_data =
  insufficient_drift_detected :: bool
  reason :: string
  samples :: int

record drift_report =
  drift_detected :: bool
  drift_score :: real
  threshold :: real
  report_baseline_stats :: statistics
  current_stats :: statistics
  report_timestamp :: datetime

datatype detect_result = Insufficient insufficient_data | Report drift_report

text \<open>The value under the key \<open>drift_detected\<close>, which both dictionaries have.\<close>

fun result_drift_detected :: "detect_result \<Rightarrow> bool" where
  "result_drift_detected (Insufficient r) = insufficient_drift_detected r"
| "result_drift_detected (Report r) = drift_detected r"

record drift_detector =
  window_size :: int
  drift_threshold :: real
  recent_queries :: "query_data list"
  baseline_stats :: "statistics option"
  drift_history :: "drift_report list"

definition drift_detector_init :: "int \<Rightarrow> real \<Rightarrow> drift_detector" where
  "drift_detector_init w th =
     \<lparr>window_size = w, drift_threshold = th, recent_queries = [],
      baseline_stats = None, drift_history = []\<rparr>"

text \<open>The global detector of the module; its threshold is the double \<open>0.3\<close>.\<close>

definition drift_detector_global :: drift_detector where
  "drift_detector_global = drift_detector_init 100 (fl (3 / 10))"

definition record_query :: "datetime \<Rightarrow> query_data \<Rightarrow> drift_detector \<Rightarrow> drift_detector" where
  "record_query now query_data d =
     (let query_data = query_data\<lparr>timestamp := Some now\<rparr>;
          d = d\<lparr>recent_queries := recent_queries d @ [query_data]\<rparr>;
          d = (if int (length (recent_queries d)) > window_size d
               then d\<lparr>recent_queries := slice_from (- window_size d) (recent_queries d)\<rparr>
               else d)
      in if baseline_stats d = None \<and> length (recent_queries d) \<ge> 50
         then d\<lparr>baseline_stats := Some (calculate_statistics (recent_queries d))\<rparr>
         else d)"

text \<open>
  \<open>detect_drift\<close>. The score is rounded as a numpy \<open>float64\<close>: with 50 queries in
  the window both histograms have an entry, so that the score is the \<open>numpy.mean\<close> of
  a list that is not empty.
\<close>

definition detect_drift ::
  "datetime \<Rightarrow> (string \<Rightarrow> nat) \<Rightarrow> drift_detector \<Rightarrow> detect_result \<times> drift_detector" where
  "detect_drift now rank d =
     (if length (recent_queries d) < 50
      then (Insufficient
              \<lparr>insufficient_drift_detected = False,
               reason = ''Insufficient data for drift detection'',
               samples = int (length (recent_queries d))\<rparr>, d)
      else
        (let baseline =
               (case baseline_stats d of
                  None \<Rightarrow> calculate_statistics (slice_to 50 (recent_queries d))
                | Some b \<Rightarrow> b);
             d = d\<lparr>baseline_stats := Some baseline\<rparr>;
             current = calculate_statistics (slice_from (- 50) (recent_queries d));
             score = calculate_drift_score rank baseline current;
             detected = (score > drift_threshold d);
             result =
               \<lparr>drift_detected = detected,
                drift_score = np_round score 3,
                threshold = drift_threshold d,
                report_baseline_stats = baseline,
                current_stats = current,
                report_timestamp = now\<rparr>;
             d = (if detected then d\<lparr>drift_history := drift_history d @ [result]\<rparr> else d)
         in (Report result, d)))"

text \<open>
  The calls made on a detector: \<open>record_query\<close> with the dictionary and the clock
  reading, and \<open>detect_drift\<close> with the clock reading and the order of the keys.
\<close>

datatype detector_call =
  RecordQuery datetime query_data | DetectDrift datetime "string \<Rightarrow> nat"

fun detector_step :: "drift_detector \<Rightarrow> detector_call \<Rightarrow> drift_detector" where
  "detector_step d (RecordQuery now q) = record_query now q d"
| "detector_step d (DetectDrift now rank) = snd (detect_drift now rank d)"

definition detector_run :: "detector_call list \<Rightarrow> drift_detector \<Rightarrow> drift_detector" where
  "detector_run cs d = foldl detector_step d cs"

text \<open>The dictionaries that a sequence of calls has recorded, as stored.\<close>

fun recorded :: "detector_call list \<Rightarrow> query_data list" where
  "recorded [] = []"
| "recorded (RecordQuery now q # cs) = q\<lparr>timestamp := Some now\<rparr> # recorded cs"
| "recorded (DetectDrift now rank # cs) = recorded cs"

text \<open>One successful call followed by two failed ones.\<close>

definition one_of_three :: "api_call list" where
  "one_of_three =
     [ApiCall True 1 1 ''search'', ApiCall False 1 1 ''search'', ApiCall False 1 1 ''search'']"

section \<open>RetrainingTrigger\<close>

text \<open>
  Formatting of a double with a fixed number of decimals, as the format specifications
  \<open>.2f\<close>, \<open>.3f\<close> and \<open>.2%\<close> of the reason strings do: the exact value of the
  double is rounded to the nearest multiple of \<open>10 ^ -n\<close> (a tie to the even one) and
  printed in decimal. The specification \<open>%\<close> multiplies the double by 100 first.
\<close>

definition digit_char :: "nat \<Rightarrow> char" where
  "digit_char d = ''0123456789'' ! (d mod 10)"

fun show_nat :: "nat \<Rightarrow> string" where
  "show_nat n = (if n < 10 then [digit_char n] else show_nat (n div 10) @ [digit_char (n mod 10)])"

declare show_nat.simps [simp del]

definition zero_pad :: "nat \<Rightarrow> string \<Rightarrow> string" where
  "zero_pad n s = replicate (n - length s) (CHR ''0'') @ s"

definition format_fixed :: "nat \<Rightarrow> real \<Rightarrow> string" where
  "format_fixed n x =
     (let m = nat (round_half_even (\<bar>x\<bar> * 10 ^ n))
      in (if x < 0 then ''-'' else [])
         @ show_nat (m div 10 ^ n)
         @ (if n = 0 then [] else ''.'' @ zero_pad n (show_nat (m mod 10 ^ n))))"

definition format_percent :: "nat \<Rightarrow> real \<Rightarrow> string" where
  "format_percent n x = format_fixed n (fmul x 100) @ ''%''"

text \<open>
  The two dictionaries that \<open>evaluate_retraining_need\<close> reads, each key with
  \<open>get(key, default)\<close>: the metrics (fields \<open>md_\<close>) and the drift information
  (fields \<open>dd_\<close>).
\<close>

record metrics_dict =
  md_success_rate_percent :: "real option"
  md_total_api_calls :: "int option"
  md_failed_responses :: "int option"
  md_avg_response_time_seconds :: "real option"

record drift_dict =
  dd_drift_detected :: "bool option"
  dd_drift_score :: "real option"

text \<open>
  The dictionary that \<open>evaluate_retraining_need\<close> returns. The short-circuit fills
  \<open>time_since_last_hours\<close> only, the full evaluation the timestamp and the evaluated
  metrics only.
\<close>

record evaluated_metrics =
  success_rate :: real
  evaluated_drift_score :: real
  error_rate :: real
  evaluated_avg_response_time :: real

record retraining_decision =
  should_retrain :: bool
  reasons :: "string list"
  time_since_last_hours :: "real option"
  decision_timestamp :: "datetime option"
  metrics_evaluated :: "evaluated_metrics option"

record retraining_trigger =
  performance_threshold :: real
  trigger_drift_threshold :: real
  min_samples_for_evaluation :: int
  retraining_history :: "retraining_decision list"
  last_retraining :: "datetime option"
  min_retraining_interval_hours :: int

definition retraining_trigger_init :: retraining_trigger where
  "retraining_trigger_init =
     \<lparr>performance_threshold = fl (85 / 100), trigger_drift_threshold = fl (3 / 10),
      min_samples_for_evaluation = 100, retraining_history = [],
      last_retraining = None, min_retraining_interval_hours = 24\<rparr>"

definition record_retraining_event ::
  "retraining_decision \<Rightarrow> retraining_trigger \<Rightarrow> retraining_trigger" where
  "record_retraining_event event t =
     (let t = t\<lparr>retraining_history := retraining_history t @ [event]\<rparr>
      in if length (retraining_history t) > 100
         then t\<lparr>retraining_history := slice_from (- 100) (retraining_history t)\<rparr>
         else t)"

text \<open>The hours since the last retraining, at the clock reading \<open>now\<close>.\<close>

definition hours_since :: "datetime \<Rightarrow> datetime \<Rightarrow> real" where
  "hours_since now previous = fdiv (total_seconds (now - previous)) 3600"

text \<open>The test of the short-circuit: a last retraining is set and is too recent.\<close>

definition too_soon :: "datetime \<Rightarrow> retraining_trigger \<Rightarrow> bool" where
  "too_soon now t =
     (case last_retraining t of
        None \<Rightarrow> False
      | Some previous \<Rightarrow> hours_since now previous < real_of_int (min_retraining_interval_hours t))"

text \<open>The four checks, as the conditions under which each sets \<open>should_retrain\<close>.\<close>

definition check_performance :: "metrics_dict \<Rightarrow> retraining_trigger \<Rightarrow> bool" where
  "check_performance metrics t =
     (fdiv (get_or (md_success_rate_percent metrics) 100) 100 < performance_threshold t)"

definition check_drift :: "drift_dict \<Rightarrow> retraining_trigger \<Rightarrow> bool" where
  "check_drift drift_info t =
     (get_or (dd_drift_detected drift_info) False
      \<and> get_or (dd_drift_score drift_info) 0 > trigger_drift_threshold t)"

definition check_error_rate :: "metrics_dict \<Rightarrow> retraining_trigger \<Rightarrow> bool" where
  "check_error_rate metrics t =
     (get_or (md_total_api_calls metrics) 0 \<ge> min_samples_for_evaluation t
      \<and> int_truediv (get_or (md_failed_responses metrics) 0)
            (get_or (md_total_api_calls metrics) 0) > fl (15 / 100))"

definition check_response_time :: "metrics_dict \<Rightarrow> bool" where
  "check_response_time metrics = (get_or (md_avg_response_time_seconds metrics) 0 > 5)"

text \<open>
  \<open>evaluate_retraining_need\<close> reads the clock for the time since the last retraining
  (\<open>now\<close>) and again for the timestamp of the result (\<open>now_stamp\<close>). The pair
  \<open>(should_retrain, reasons)\<close> is threaded through the four checks as the source's two
  local variables are. Division by \<open>total_calls\<close> happens only where \<open>total_calls\<close>
  is positive or has reached \<open>min_samples_for_evaluation\<close>, which is 100 on every
  trigger that the source creates.
\<close>

definition evaluate_retraining_need ::
  "datetime \<Rightarrow> datetime \<Rightarrow> metrics_dict \<Rightarrow> drift_dict \<Rightarrow> retraining_trigger
     \<Rightarrow> retraining_decision \<times> retraining_trigger" where
  "evaluate_retraining_need now now_stamp metrics drift_info t =
     (if too_soon now t
      then (\<lparr>should_retrain = False,
             reasons = [''Too soon since last retraining''],
             time_since_last_hours = map_option (hours_since now) (last_retraining t),
             decision_timestamp = None,
             metrics_evaluated = None\<rparr>, t)
      else
        (let sr_rs = (False, []);
             success_rate = fdiv (get_or (md_success_rate_percent metrics) 100) 100;
             sr_rs =
               (if success_rate < performance_threshold t
                then (True, snd sr_rs @
                        [''Performance below threshold: '' @ format_percent 2 success_rate
                           @ '' < '' @ format_percent 2 (performance_threshold t)])
                else sr_rs);
             sr_rs =
               (if get_or (dd_drift_detected drift_info) False
                then (let drift_score = get_or (dd_drift_score drift_info) 0
                      in if drift_score > trigger_drift_threshold t
                         then (True, snd sr_rs @
                                 [''Significant data drift detected: ''
                                    @ format_fixed 3 drift_score])
                         else sr_rs)
                else sr_rs);
             total_calls = get_or (md_total_api_calls metrics) 0;
             failed_responses = get_or (md_failed_responses metrics) 0;
             sr_rs =
               (if total_calls \<ge> min_samples_for_evaluation t
                then (let error_rate = int_truediv failed_responses total_calls
                      in if error_rate > fl (15 / 100)
                         then (True, snd sr_rs @
                                 [''High error rate: '' @ format_percent 2 error_rate])
                         else sr_rs)
                else sr_rs);
             avg_response_time = get_or (md_avg_response_time_seconds metrics) 0;
             sr_rs =
               (if avg_response_time > 5
                then (True, snd sr_rs @
                        [''Response time degraded: '' @ format_fixed 2 avg_response_time
                           @ ''s''])
                else sr_rs);
             result =
               \<lparr>should_retrain = fst sr_rs,
                reasons = snd sr_rs,
                time_since_last_hours = None,
                decision_timestamp = Some now_stamp,
                metrics_evaluated = Some
                  \<lparr>success_rate = success_rate,
                   evaluated_drift_score = get_or (dd_drift_score drift_info) 0,
                   error_rate =
                     (if total_calls > 0
                      then int_truediv failed_responses total_calls else 0),
                   evaluated_avg_response_time = avg_response_time\<rparr>\<rparr>
         in (result, if fst sr_rs then record_retraining_event result t else t)))"

text \<open>The reason string of each check, as the source formats it.\<close>

definition reason_performance :: "metrics_dict \<Rightarrow> retraining_trigger \<Rightarrow> string" where
  "reason_performance metrics t =
     ''Performance below threshold: ''
       @ format_percent 2 (fdiv (get_or (md_success_rate_percent metrics) 100) 100)
       @ '' < '' @ format_percent 2 (performance_threshold t)"

definition reason_drift :: "drift_dict \<Rightarrow> string" where
  "reason_drift drift_info =
     ''Significant data drift detected: ''
       @ format_fixed 3 (get_or (dd_drift_score drift_info) 0)"

definition reason_error_rate :: "metrics_dict \<Rightarrow> string" where
  "reason_error_rate metrics =
     ''High error rate: ''
       @ format_percent 2 (int_truediv (get_or (md_failed_responses metrics) 0)
                             (get_or (md_total_api_calls metrics) 0))"

definition reason_response_time :: "metrics_dict \<Rightarrow> string" where
  "reason_response_time metrics =
     ''Response time degraded: ''
       @ format_fixed 2 (get_or (md_avg_response_time_seconds metrics) 0) @ ''s''"

text \<open>
  What \<open>trigger_retraining_pipeline\<close> meets outside the object: the file of jobs
  (\<open>None\<close> when it does not exist), whether reading or writing that file fails,
  whether the retraining script exists, and what launching the process does.
\<close>

record retraining_job =
  job_id_time :: datetime
  triggered_at :: datetime
  job_reason :: string
  status :: string
  steps :: "string list"

datatype launch = Launched nat | LaunchRaises

record world =
  jobs_file :: "retraining_job list option"
  jobs_file_fails :: bool
  script_exists :: bool
  popen :: launch

text \<open>
  \<open>_save_retraining_job\<close> catches every exception of its own; a failure is modelled
  as leaving the file as it was.
\<close>

definition save_retraining_job :: "retraining_job \<Rightarrow> world \<Rightarrow> world" where
  "save_retraining_job job w =
     (if jobs_file_fails w then w
      else (let jobs = (case jobs_file w of None \<Rightarrow> [] | Some js \<Rightarrow> js)
            in w\<lparr>jobs_file := Some (jobs @ [job])\<rparr>))"

text \<open>
  \<open>trigger_retraining_pipeline\<close> reads the clock for the job identifier, for
  \<open>triggered_at\<close> and for \<open>last_retraining\<close>. The identifier
  \<open>retrain_<date>_<time>\<close> is kept as the clock reading it is printed from. The only
  statement inside the \<open>try\<close> that can raise is the launch of the process, and the
  handler returns \<open>False\<close>.
\<close>

definition trigger_retraining_pipeline ::
  "datetime \<Rightarrow> datetime \<Rightarrow> datetime \<Rightarrow> string \<Rightarrow> retraining_trigger \<Rightarrow> world
     \<Rightarrow> bool \<times> retraining_trigger \<times> world" where
  "trigger_retraining_pipeline now_id now_triggered now_last reason_text t w =
     (let retraining_job =
            \<lparr>job_id_time = now_id, triggered_at = now_triggered, job_reason = reason_text,
             status = ''initiated'',
             steps = [''data_collection'', ''preprocessing'', ''training'', ''validation'',
                      ''deployment'']\<rparr>;
          w = save_retraining_job retraining_job w
      in if script_exists w
         then (case popen w of
                 LaunchRaises \<Rightarrow> (False, t, w)
               | Launched pid \<Rightarrow> (True, t\<lparr>last_retraining := Some now_last\<rparr>, w))
         else (True, t\<lparr>last_retraining := Some now_last\<rparr>, w))"

section \<open>NotificationManager\<close>

text \<open>
  A notification; the key \<open>type\<close> is the field \<open>kind\<close>, the key \<open>timestamp\<close> the field
  \<open>sent_at\<close>, and the payload under \<open>data\<close> is of any type.
\<close>

record 'a notification =
  kind :: string
  severity :: string
  message :: string
  sent_at :: datetime
  data :: 'a

record 'a notification_manager =
  notification_history :: "'a notification list"
  email_enabled :: bool
  slack_enabled :: bool
  slack_webhook :: string

definition notification_manager_init :: "bool \<Rightarrow> bool \<Rightarrow> string \<Rightarrow> 'a notification_manager" where
  "notification_manager_init email slack webhook =
     \<lparr>notification_history = [], email_enabled = email, slack_enabled = slack,
      slack_webhook = webhook\<rparr>"

text \<open>
  \<open>_dispatch_notification\<close>. After the history is updated the source writes to the
  log and, where enabled, to the e-mail and chat transports; the chat transport catches
  its own exceptions, and none of them touches the object.
\<close>

definition dispatch_notification ::
  "'a notification \<Rightarrow> 'a notification_manager \<Rightarrow> 'a notification_manager" where
  "dispatch_notification notification nm =
     (let nm = nm\<lparr>notification_history := notification_history nm @ [notification]\<rparr>
      in if length (notification_history nm) > 1000
         then nm\<lparr>notification_history := slice_from (- 1000) (notification_history nm)\<rparr>
         else nm)"

definition dispatch_all ::
  "'a notification list \<Rightarrow> 'a notification_manager \<Rightarrow> 'a notification_manager" where
  "dispatch_all ns nm = foldl (\<lambda>nm n. dispatch_notification n nm) nm ns"

text \<open>
  Inputs of the examples: a world without the retraining script; a query of type
  \<open>search\<close> and a query of type \<open>price_check\<close> that agree on every other key; and a
  detector that holds exactly fifty queries.
\<close>

definition no_script_world :: world where
  "no_script_world =
     \<lparr>jobs_file = None, jobs_file_fails = False, script_exists = False, popen = Launched 0\<rparr>"

definition search_query :: query_data where
  "search_query =
     \<lparr>query = Some ''flat'', properties_count = Some 5, response_time = Some 1,
      query_type = Some ''search'', neighborhood = None, timestamp = None\<rparr>"

definition price_query :: query_data where
  "price_query =
     \<lparr>query = Some ''flat'', properties_count = Some 5, response_time = Some 1,
      query_type = Some ''price_check'', neighborhood = None, timestamp = None\<rparr>"

definition fifty_queries :: drift_detector where
  "fifty_queries = drift_detector_global\<lparr>recent_queries := replicate 50 search_query\<rparr>"

text \<open>Sequences of \<open>record_query\<close> calls with one query repeated.\<close>

definition search_calls :: "nat \<Rightarrow> detector_call list" where
  "search_calls n = map (RecordQuery 0) (replicate n search_query)"

definition price_calls :: "nat \<Rightarrow> detector_call list" where
  "price_calls n = map (RecordQuery 1) (replicate n price_query)"

text \<open>
  A query that carries its type only, and the scenario of 60 such queries of type
  \<open>search\<close> followed by 50 of type \<open>price_check\<close>.
\<close>

definition type_only :: "string \<Rightarrow> query_data" where
  "type_only t =
     \<lparr>query = None, properties_count = None, response_time = None,
      query_type = Some t, neighborhood = None, timestamp = None\<rparr>"

definition type_only_shift :: "detector_call list" where
  "type_only_shift =
     map (RecordQuery 0) (replicate 60 (type_only ''search''))
     @ map (RecordQuery 1) (replicate 50 (type_only ''price_check''))"

section \<open>Rounding to a double\<close>

lemma round_half_even_near: "\<bar>real_of_int (round_half_even y) - y\<bar> \<le> 1 / 2"
  unfolding round_half_even_def Let_def by (auto; linarith)

lemma round_half_even_of_int [simp]: "round_half_even (of_int k) = k"
  by (simp add: round_half_even_def)

lemma round_half_even_numeral [simp]: "round_half_even (numeral n) = numeral n"
  using round_half_even_of_int [of "numeral n"] by (simp del: round_half_even_of_int)

lemma round_half_even_cases:
  "round_half_even y = \<lfloor>y\<rfloor> \<or> (round_half_even y = \<lfloor>y\<rfloor> + 1 \<and> of_int \<lfloor>y\<rfloor> < y)"
  unfolding round_half_even_def Let_def by (auto; linarith)

lemma round_half_even_ge: "of_int a \<le> y \<Longrightarrow> a \<le> round_half_even y"
proof -
  assume "of_int a \<le> y"
  then have "a \<le> \<lfloor>y\<rfloor>" by (simp add: le_floor_iff)
  then show ?thesis
    using round_half_even_cases [of y] by auto
qed

lemma round_half_even_le: "y \<le> of_int b \<Longrightarrow> round_half_even y \<le> b"
proof -
  assume b: "y \<le> of_int b"
  then have "\<lfloor>y\<rfloor> \<le> b" by (simp add: floor_le_iff)
  moreover have "\<lfloor>y\<rfloor> + 1 \<le> b" if "of_int \<lfloor>y\<rfloor> < y"
  proof -
    from that b have "of_int \<lfloor>y\<rfloor> < (of_int b :: real)" by linarith
    then show ?thesis by simp
  qed
  ultimately show ?thesis
    using round_half_even_cases [of y] by auto
qed

lemma round_half_even_nonneg: "0 \<le> y \<Longrightarrow> 0 \<le> round_half_even y"
  using round_half_even_ge [of 0 y] by simp

lemma round_half_even_minus: "round_half_even (- y) = - round_half_even y"
proof (cases "y = of_int \<lfloor>y\<rfloor>")
  case True
  then obtain k where k: "y = of_int k" ..
  have "round_half_even (- real_of_int k) = round_half_even (real_of_int (- k))"
    by simp
  also have "\<dots> = - k"
    by (rule round_half_even_of_int)
  finally show ?thesis
    by (simp add: k)
next
  case False
  then have f: "\<lfloor>- y\<rfloor> = - \<lfloor>y\<rfloor> - 1"
    by (metis ceiling_altdef ceiling_def add_diff_cancel_right' minus_diff_eq minus_minus
        uminus_add_conv_diff)
  show ?thesis
    unfolding round_half_even_def Let_def f
    by (auto; linarith?)
qed

lemma binade_bounds:
  assumes "0 < x"
  shows "2 powi binade x \<le> x" and "x < 2 powi (binade x + 1)"
proof -
  have "2 powi binade x \<le> x \<and> x < 2 powi (binade x + 1)"
  proof (cases "1 \<le> x")
    case True
    let ?n = "\<lfloor>x\<rfloor>"
    let ?b = "bitlen ?n"
    from True have n: "0 < ?n" by simp
    from bitlen_bounds [OF n] have lo: "2 ^ nat (?b - 1) \<le> ?n" and hi: "?n < 2 ^ nat ?b"
      by simp_all
    from n have b: "1 \<le> ?b"
      by (simp add: bitlen_alt_def)
    have "real_of_int (2 ^ nat (?b - 1)) \<le> real_of_int ?n"
      using lo by (simp only: of_int_le_iff)
    then have "2 powi (?b - 1) \<le> real_of_int ?n"
      using b by (simp add: power_int_def)
    then have 1: "2 powi (?b - 1) \<le> x"
      by linarith
    from hi have "?n + 1 \<le> 2 ^ nat ?b" by simp
    then have "real_of_int (?n + 1) \<le> real_of_int (2 ^ nat ?b)"
      by (simp only: of_int_le_iff)
    then have "real_of_int ?n + 1 \<le> 2 powi ?b"
      using b by (simp add: power_int_def)
    then have 2: "x < 2 powi ?b"
      by linarith
    from True 1 2 show ?thesis
      by (simp add: binade_def)
  next
    case False
    let ?y = "1 / x"
    let ?m = "\<lceil>?y\<rceil>"
    let ?c = "bitlen (?m - 1)"
    from False assms have y: "1 < ?y" by simp
    then have m: "0 < ?m - 1"
      by (simp add: less_ceiling_iff)
    from bitlen_bounds [OF m] have lo: "2 ^ nat (?c - 1) \<le> ?m - 1" and hi: "?m - 1 < 2 ^ nat ?c"
      by simp_all
    from m have c: "1 \<le> ?c"
      by (simp add: bitlen_alt_def)
    from hi have "?m \<le> 2 ^ nat ?c" by simp
    then have "real_of_int ?m \<le> real_of_int (2 ^ nat ?c)"
      by (simp only: of_int_le_iff)
    then have "?y \<le> 2 ^ nat ?c"
      by (simp add: ceiling_le_iff)
    then have "1 / 2 ^ nat ?c \<le> x"
      using assms by (simp add: field_simps)
    then have 1: "2 powi (- ?c) \<le> x"
      using c by (simp add: power_int_def field_simps)
    have "real_of_int (2 ^ nat (?c - 1)) \<le> real_of_int (?m - 1)"
      using lo by (simp only: of_int_le_iff)
    moreover have "real_of_int (?m - 1) < ?y"
      using ceiling_correct [of ?y] by simp
    ultimately have "2 ^ nat (?c - 1) < ?y"
      by simp
    then have "x < 1 / 2 ^ nat (?c - 1)"
      using assms by (simp add: field_simps)
    moreover have "- ?c + 1 = - int (nat (?c - 1))"
      using c by simp
    then have "(2::real) powi (- ?c + 1) = 1 / 2 ^ nat (?c - 1)"
      by (simp only: power_int_minus power_int_of_nat) (simp add: field_simps)
    ultimately have 2: "x < 2 powi (- ?c + 1)"
      by simp
    from False 1 2 show ?thesis
      by (simp add: binade_def)
  qed
  then show "2 powi binade x \<le> x" and "x < 2 powi (binade x + 1)"
    by simp_all
qed

lemma powi2_less_imp:
  assumes "(2::real) powi a < 2 powi b"
  shows "a < b"
proof (rule ccontr)
  assume "\<not> a < b"
  then have "b \<le> a" by simp
  then have "(2::real) powi b \<le> 2 powi a"
    by (intro power_int_increasing) simp_all
  with assms show False by simp
qed

lemma binade_unique:
  assumes "0 < x" "2 powi e \<le> x" "x < 2 powi (e + 1)"
  shows "binade x = e"
proof -
  have "(2::real) powi binade x < 2 powi (e + 1)"
    using binade_bounds(1) [OF assms(1)] assms(3) by linarith
  then have "binade x < e + 1"
    by (rule powi2_less_imp)
  moreover have "(2::real) powi e < 2 powi (binade x + 1)"
    using binade_bounds(2) [OF assms(1)] assms(2) by linarith
  then have "e < binade x + 1"
    by (rule powi2_less_imp)
  ultimately show ?thesis by simp
qed

lemma fl_0 [simp]: "fl 0 = 0"
  by (simp add: fl_def)

lemma fl_unfold:
  assumes "x \<noteq> 0"
  shows "fl x = of_int (round_half_even (x / 2 powi (max (binade \<bar>x\<bar>) (- 1022) - 52)))
                  * 2 powi (max (binade \<bar>x\<bar>) (- 1022) - 52)"
  using assms by (simp add: fl_def Let_def)

lemma fl_minus: "fl (- x) = - fl x"
  by (cases "x = 0") (simp_all add: fl_unfold round_half_even_minus)

lemma fl_nonneg: "0 \<le> x \<Longrightarrow> 0 \<le> fl x"
  by (cases "x = 0") (simp_all add: fl_unfold round_half_even_nonneg)

lemma fl_error: "\<bar>fl x - x\<bar> \<le> max (\<bar>x\<bar> * 2 powi (- 53)) (2 powi (- 1075))"
proof (cases "x = 0")
  case True
  then show ?thesis by simp
next
  case False
  define e where "e = max (binade \<bar>x\<bar>) (- 1022)"
  define q :: real where "q = 2 powi (e - 52)"
  have q: "0 < q" by (simp add: q_def)
  have "fl x - x = (of_int (round_half_even (x / q)) - x / q) * q"
    using False q by (simp add: fl_unfold e_def q_def field_simps)
  then have "\<bar>fl x - x\<bar> = \<bar>of_int (round_half_even (x / q)) - x / q\<bar> * q"
    using q by (simp add: abs_mult)
  also have "\<dots> \<le> (1 / 2) * q"
    using q by (intro mult_right_mono round_half_even_near) simp
  also have "\<dots> = 2 powi (e - 53)"
    by (simp add: q_def power_int_diff)
  finally have err: "\<bar>fl x - x\<bar> \<le> 2 powi (e - 53)" .
  show ?thesis
  proof (cases "- 1022 \<le> binade \<bar>x\<bar>")
    case True
    then have "e = binade \<bar>x\<bar>" by (simp add: e_def)
    then have "2 powi e \<le> \<bar>x\<bar>"
      using binade_bounds(1) [of "\<bar>x\<bar>"] False by simp
    then have "2 powi e * 2 powi (- 53) \<le> \<bar>x\<bar> * 2 powi (- 53)"
      by (intro mult_right_mono) simp_all
    moreover have "(2::real) powi (e - 53) = 2 powi e * 2 powi (- 53)"
      by (simp add: power_int_diff power_int_minus field_simps)
    ultimately show ?thesis
      using err by linarith
  next
    case False
    then have "e - 53 = - 1075" by (simp add: e_def)
    with err have "\<bar>fl x - x\<bar> \<le> 2 powi (- 1075)"
      by (simp only:)
    then show ?thesis
      by (rule max.coboundedI2)
  qed
qed

lemma fl_idem_pos:
  assumes "0 < x"
  shows "fl (fl x) = fl x"
proof -
  define e where "e = max (binade x) (- 1022)"
  define q :: real where "q = 2 powi (e - 52)"
  define m where "m = round_half_even (x / q)"
  have q: "0 < q" by (simp add: q_def)
  have y: "fl x = of_int m * q"
    using assms by (simp add: fl_unfold e_def q_def m_def)
  have m0: "0 \<le> m"
    unfolding m_def using assms q by (intro round_half_even_nonneg) simp
  have p52: "2 powi e = 2 ^ 52 * q"
    by (simp add: q_def power_int_diff)
  have p53: "2 powi (e + 1) = 2 ^ 53 * q"
    by (simp add: q_def power_int_diff power_int_add)
  have hi: "m \<le> 2 ^ 53"
  proof -
    have "x < 2 powi (e + 1)"
    proof -
      have "x < 2 powi (binade x + 1)" by (rule binade_bounds(2) [OF assms])
      also have "\<dots> \<le> 2 powi (e + 1)"
        by (intro power_int_increasing) (simp_all add: e_def)
      finally show ?thesis .
    qed
    then have "x < 2 ^ 53 * q"
      by (simp only: p53)
    then have "x / q \<le> of_int (2 ^ 53)"
      using q by (simp add: field_simps)
    then show ?thesis
      unfolding m_def by (rule round_half_even_le)
  qed
  show ?thesis
  proof (cases "m = 0")
    case True
    then show ?thesis by (simp add: y)
  next
    case False
    with m0 have mpos: "0 < m" by simp
    then have ypos: "0 < of_int m * q"
      using q by simp
    have idem: "fl (of_int m * q) = of_int m * q"
      if e': "max (binade (of_int m * q)) (- 1022) = e"
    proof -
      have ne: "of_int m * q \<noteq> 0" and ab: "\<bar>of_int m * q\<bar> = of_int m * q"
        using ypos by linarith+
      have "fl (of_int m * q) = of_int (round_half_even (of_int m * q / q)) * q"
        by (simp only: fl_unfold [OF ne] ab e' q_def [symmetric])
      also have "of_int m * q / q = of_int m"
        using q by simp
      finally show ?thesis by simp
    qed
    show ?thesis
    proof (cases "m = 2 ^ 53")
      case True
      then have val: "of_int m * q = 2 powi (e + 1)"
        by (simp add: p53)
      have "binade (2 powi (e + 1)) = e + 1"
        by (rule binade_unique) (simp_all add: power_int_add)
      moreover have "- 1022 \<le> e" by (simp add: e_def)
      ultimately have e': "max (binade (of_int m * q)) (- 1022) = e + 1"
        by (simp add: val)
      have q2: "(2::real) powi (e + 1 - 52) = 2 * q"
        by (simp add: q_def power_int_diff power_int_add)
      have ne: "of_int m * q \<noteq> 0" and ab: "\<bar>of_int m * q\<bar> = of_int m * q"
        using ypos by linarith+
      have "fl (of_int m * q) = of_int (round_half_even (of_int m * q / (2 * q))) * (2 * q)"
        by (simp only: fl_unfold [OF ne] ab e' q2)
      also have "of_int m * q / (2 * q) = of_int (2 ^ 52)"
        using q True by simp
      finally show ?thesis
        using True by (simp add: y)
    next
      case m53: False
      with hi have lt: "m < 2 ^ 53" by simp
      then have "real_of_int m < real_of_int (2 ^ 53)"
        by (simp only: of_int_less_iff)
      then have upper: "of_int m * q < 2 powi (e + 1)"
        using q by (simp add: p53)
      show ?thesis
      proof (cases "- 1022 \<le> binade x")
        case True
        then have eb: "e = binade x" by (simp add: e_def)
        have "2 powi e \<le> x"
          unfolding eb by (rule binade_bounds(1) [OF assms])
        then have "of_int (2 ^ 52) \<le> x / q"
          using q by (simp add: p52 field_simps)
        then have "2 ^ 52 \<le> m"
          unfolding m_def by (rule round_half_even_ge)
        then have "real_of_int (2 ^ 52) \<le> real_of_int m"
          by (simp only: of_int_le_iff)
        then have lower: "2 powi e \<le> of_int m * q"
          using q by (simp add: p52)
        have "binade (of_int m * q) = e"
          using ypos lower upper by (rule binade_unique)
        moreover have "- 1022 \<le> e" by (simp add: e_def)
        ultimately show ?thesis
          using idem by (simp add: y)
      next
        case False
        then have e: "e = - 1022" by (simp add: e_def)
        have "binade (of_int m * q) < e + 1"
        proof -
          have "2 powi binade (of_int m * q) \<le> of_int m * q"
            by (rule binade_bounds(1) [OF ypos])
          with upper have "(2::real) powi binade (of_int m * q) < 2 powi (e + 1)"
            by linarith
          then show ?thesis
            by (rule powi2_less_imp)
        qed
        then have "max (binade (of_int m * q)) (- 1022) = e"
          by (simp add: e)
        then show ?thesis
          using idem by (simp add: y)
      qed
    qed
  qed
qed

lemma fl_idem [simp]: "fl (fl x) = fl x"
proof (cases x "0::real" rule: linorder_cases)
  case less
  then have "fl (fl (- x)) = fl (- x)"
    by (intro fl_idem_pos) simp
  then show ?thesis
    by (simp add: fl_minus)
next
  case equal
  then show ?thesis by simp
next
  case greater
  then show ?thesis by (rule fl_idem_pos)
qed

lemma fl_exact:
  assumes "x \<noteq> 0"
      and "x / 2 powi (max (binade \<bar>x\<bar>) (- 1022) - 52) = of_int j"
  shows "fl x = x"
proof -
  have "fl x = of_int j * 2 powi (max (binade \<bar>x\<bar>) (- 1022) - 52)"
    by (simp add: fl_unfold [OF assms(1)] assms(2))
  also have "\<dots> = x"
    using assms(2) by (simp add: field_simps)
  finally show ?thesis .
qed

lemma fl_of_int_pos:
  assumes "0 < k" "k \<le> 2 ^ 53"
  shows "fl (of_int k) = of_int k"
proof -
  define e where "e = bitlen k - 1"
  have b: "binade \<bar>real_of_int k\<bar> = e"
    using assms(1) by (simp add: binade_def e_def)
  from bitlen_bounds [OF assms(1)] have lo: "2 ^ nat e \<le> k" and hi: "k < 2 ^ nat (e + 1)"
    by (simp_all add: e_def)
  from assms(1) have e0: "0 \<le> e"
    by (simp add: e_def bitlen_alt_def)
  have e53: "e \<le> 53"
  proof (rule ccontr)
    assume "\<not> e \<le> 53"
    then have "nat e \<ge> 54" by simp
    then have "(2::int) ^ 54 \<le> 2 ^ nat e"
      by (intro power_increasing) simp_all
    with lo assms(2) show False by simp
  qed
  have ne: "real_of_int k \<noteq> 0" using assms(1) by simp
  have m: "max e (- 1022) = e" using e0 by simp
  show ?thesis
  proof (cases "e \<le> 52")
    case True
    then have "(2::real) powi (e - 52) = 1 / 2 ^ nat (52 - e)"
      by (simp add: power_int_def field_simps)
    then have "real_of_int k / 2 powi (e - 52) = of_int (k * 2 ^ nat (52 - e))"
      by simp
    then show ?thesis
      by (intro fl_exact [OF ne]) (simp only: b m)
  next
    case False
    with e53 have e: "e = 53" by simp
    with lo assms(2) have k: "k = 2 ^ 53" by simp
    have "real_of_int k / 2 powi (e - 52) = of_int (2 ^ 52)"
      by (simp add: e k)
    then show ?thesis
      by (intro fl_exact [OF ne]) (simp only: b m)
  qed
qed

lemma fl_of_int: "\<bar>k\<bar> \<le> 2 ^ 53 \<Longrightarrow> fl (of_int k) = of_int k"
proof (cases k "0::int" rule: linorder_cases)
  case less
  assume "\<bar>k\<bar> \<le> 2 ^ 53"
  with less have "fl (of_int (- k)) = of_int (- k)"
    by (intro fl_of_int_pos) simp_all
  then show ?thesis
    by (simp add: fl_minus)
next
  case equal
  then show ?thesis by simp
next
  case greater
  assume "\<bar>k\<bar> \<le> 2 ^ 53"
  with greater show ?thesis
    by (intro fl_of_int_pos) simp_all
qed

lemma fl_numeral [simp]: "numeral n \<le> (2::int) ^ 53 \<Longrightarrow> fl (numeral n) = numeral n"
  using fl_of_int [of "numeral n"] by simp

lemma fl_1 [simp]: "fl 1 = 1"
  using fl_of_int [of 1] by simp

text \<open>The double nearest to a number of ordinary size is within one part in \<open>2 ^ 53\<close>.\<close>

lemma fl_error_normal:
  assumes "1 / 2 ^ 1000 \<le> \<bar>x\<bar>"
  shows "\<bar>fl x - x\<bar> \<le> \<bar>x\<bar> / 2 ^ 53"
proof -
  have "(2::real) powi (- 1075) = (1 / 2 ^ 1000) * (1 / 2 ^ 75)"
    by (simp add: power_int_minus field_simps flip: power_add)
  also have "\<dots> \<le> \<bar>x\<bar> * (1 / 2 ^ 53)"
    using assms by (intro mult_mono) (simp_all add: field_simps)
  finally have "(2::real) powi (- 1075) \<le> \<bar>x\<bar> * 2 powi (- 53)"
    by (simp add: power_int_minus field_simps)
  with fl_error [of x] have "\<bar>fl x - x\<bar> \<le> \<bar>x\<bar> * 2 powi (- 53)"
    by simp
  then show ?thesis
    by (simp add: power_int_minus field_simps)
qed

text \<open>Evaluation of sums and means of doubles on concrete lists.\<close>

lemmas double_eval =
  np_mean_def pairwise_sum.simps unrolled_sum_def block_sums.simps Let_def
  fadd_def fsub_def fmul_def fdiv_def eval_nat_numeral

lemma round_half_even_0 [simp]: "round_half_even 0 = 0"
  using round_half_even_of_int [of 0] by (simp del: round_half_even_of_int)

lemma py_round_zero [simp]: "py_round 0 n = 0"
  by (simp add: py_round_def)

lemma np_round_zero [simp]: "np_round 0 n = 0"
  by (simp add: np_round_def fmul_def fdiv_def)

section \<open>MetricsCollector: the counters\<close>

lemma record_api_call_counters:
  "api_calls (record_api_call s rt pc qt m) = api_calls m + 1"
  "successful_responses (record_api_call s rt pc qt m) =
     successful_responses m + (if s then 1 else 0)"
  "failed_responses (record_api_call s rt pc qt m) = failed_responses m + (if s then 0 else 1)"
  "chromadb_queries (record_api_call s rt pc qt m) = chromadb_queries m + 1"
  by (simp_all add: record_api_call_def Let_def)

lemma record_calls_snoc: "record_calls (cs @ [c]) m = record_call (record_calls cs m) c"
  by (simp add: record_calls_def)

lemma record_calls_counters:
  "api_calls (record_calls cs m) = api_calls m + int (length cs)"
  "successful_responses (record_calls cs m) = successful_responses m + int (successes cs)"
  "failed_responses (record_calls cs m) = failed_responses m + int (failures cs)"
  "chromadb_queries (record_calls cs m) = chromadb_queries m + int (length cs)"
proof (induction cs rule: rev_induct)
  case Nil
  {
    case 1 show ?case by (simp add: record_calls_def)
  next
    case 2 show ?case by (simp add: record_calls_def successes_def)
  next
    case 3 show ?case by (simp add: record_calls_def failures_def)
  next
    case 4 show ?case by (simp add: record_calls_def)
  }
next
  case (snoc c cs)
  obtain s rt pc qt where c: "c = ApiCall s rt pc qt" by (cases c)
  {
    case 1 show ?case using snoc(1) by (simp add: record_calls_snoc c record_api_call_counters)
  next
    case 2 show ?case
      using snoc(2) by (simp add: record_calls_snoc c record_api_call_counters successes_def)
  next
    case 3 show ?case
      using snoc(3) by (simp add: record_calls_snoc c record_api_call_counters failures_def)
  next
    case 4 show ?case using snoc(4) by (simp add: record_calls_snoc c record_api_call_counters)
  }
qed

lemma successes_failures: "successes cs + failures cs = length cs"
  unfolding successes_def failures_def by (rule sum_length_filter_compl)

text \<open>
  C10. Each call of \<open>record_api_call\<close> adds one to the total counter, one to exactly
  one of the success and failure counters (the success counter for a successful call,
  the failure counter otherwise) and one to the counter of vector-store queries. After
  every sequence of calls on a fresh collector the total counter and the query counter
  are the number of calls, the success and the failure counter are the numbers of
  successful and of failed calls, the successes and the failures add up to the total,
  and the number of queries equals the total.
\<close>

theorem C10_counter_invariant:
  "api_calls (record_api_call s rt pc qt m) = api_calls m + 1
   \<and> successful_responses (record_api_call s rt pc qt m)
       = successful_responses m + (if s then 1 else 0)
   \<and> failed_responses (record_api_call s rt pc qt m)
       = failed_responses m + (if s then 0 else 1)
   \<and> chromadb_queries (record_api_call s rt pc qt m) = chromadb_queries m + 1
   \<and> api_calls (record_calls cs (metrics_init t0)) = int (length cs)
   \<and> successful_responses (record_calls cs (metrics_init t0)) = int (successes cs)
   \<and> failed_responses (record_calls cs (metrics_init t0)) = int (failures cs)
   \<and> chromadb_queries (record_calls cs (metrics_init t0)) = int (length cs)
   \<and> successful_responses (record_calls cs (metrics_init t0))
       + failed_responses (record_calls cs (metrics_init t0))
       = api_calls (record_calls cs (metrics_init t0))
   \<and> chromadb_queries (record_calls cs (metrics_init t0))
       = api_calls (record_calls cs (metrics_init t0))"
  using successes_failures [of cs]
  by (simp add: record_api_call_counters record_calls_counters metrics_init_def)

section \<open>MetricsCollector: the success rate\<close>

lemma success_rate_percent_get_metrics:
  "success_rate_percent (get_metrics t1 t2 m) =
     py_round (if 0 < api_calls m
               then fmul (int_truediv (successful_responses m) (api_calls m)) 100
               else 0) 2"
  by (simp add: get_metrics_def Let_def)

lemma success_rate_percent_record_calls:
  "success_rate_percent (get_metrics t1 t2 (record_calls cs (metrics_init t0))) =
     (if 0 < successes cs + failures cs
      then py_round (fmul (int_truediv (int (successes cs))
                                       (int (successes cs + failures cs))) 100) 2
      else 0)"
  by (simp add: success_rate_percent_get_metrics record_calls_counters metrics_init_def
      successes_failures)

lemma fl_error_bound:
  assumes "\<bar>x\<bar> \<le> B" "1 \<le> B"
  shows "\<bar>fl x - x\<bar> \<le> B / 2 ^ 53"
proof -
  have "(2::real) powi (- 1075) \<le> 2 powi (- 53)"
    by (intro power_int_increasing) simp_all
  also have "\<dots> = 1 / 2 ^ 53"
    by (simp add: power_int_minus field_simps)
  also have "\<dots> \<le> B / 2 ^ 53"
    using assms(2) by (simp add: field_simps)
  finally have "(2::real) powi (- 1075) \<le> B / 2 ^ 53" .
  moreover have "\<bar>x\<bar> * 2 powi (- 53) \<le> B / 2 ^ 53"
    using assms(1) by (simp add: power_int_minus field_simps)
  ultimately have "max (\<bar>x\<bar> * 2 powi (- 53)) (2 powi (- 1075)) \<le> B / 2 ^ 53"
    by (intro max.boundedI)
  with fl_error [of x] show ?thesis
    by (rule order_trans)
qed

text \<open>
  The distance of the rounded percentage from the exact one: three roundings to a
  double and one rounding to two decimals.
\<close>

lemma rounded_rate_near:
  assumes "0 \<le> q" "q \<le> 1"
  shows "\<bar>py_round (fl (fl q * 100)) 2 - 100 * q\<bar> \<le> 1 / 200 + 1 / 10 ^ 12"
proof -
  define a where "a = fl q"
  define b where "b = fl (a * 100)"
  define k where "k = real_of_int (round_half_even (b * 100))"
  define c where "c = k / 100"
  define d where "d = fl c"
  define u :: real where "u = 1 / 2 ^ 53"
  define t :: real where "t = 1 / 10 ^ 12"
  have u: "0 \<le> u" "u \<le> 1" "868 * u \<le> t"
    by (simp_all add: u_def t_def)
  have ea: "\<bar>a - q\<bar> \<le> u"
    unfolding a_def u_def using fl_error_bound [of q 1] assms by simp
  with u assms have a2: "\<bar>a * 100\<bar> \<le> 200"
    by linarith
  then have a: "\<bar>a * 100\<bar> \<le> 256"
    by linarith
  have eb: "\<bar>b - a * 100\<bar> \<le> 256 * u"
    unfolding b_def u_def using fl_error_bound [OF a] by simp
  have ec: "\<bar>c - b\<bar> \<le> 1 / 200"
  proof -
    have "\<bar>k - b * 100\<bar> \<le> 1 / 2"
      unfolding k_def by (rule round_half_even_near)
    then show ?thesis
      unfolding c_def by linarith
  qed
  from a2 eb ec u have c: "\<bar>c\<bar> \<le> 512"
    by linarith
  have ed: "\<bar>d - c\<bar> \<le> 512 * u"
    unfolding d_def u_def using fl_error_bound [OF c] by simp
  from ea eb ec ed u have "\<bar>d - 100 * q\<bar> \<le> 1 / 200 + t"
    by linarith
  then show ?thesis
    by (simp add: d_def c_def k_def b_def a_def t_def py_round_def)
qed

text \<open>
  C2, as the code has it. After a sequence of calls with \<open>N\<close> successes and \<open>M\<close>
  failures, \<open>success_rate_percent\<close> is \<open>round(N / (N + M) * 100, 2)\<close> as the doubles
  give it when \<open>N + M > 0\<close>: the quotient and the product are rounded to a double, the
  product is rounded to two decimal places, and the result is the double nearest to
  that decimal. It lies within \<open>0.005\<close>, and the rounding error of the doubles below
  \<open>10 ^ -12\<close>, of \<open>100 * N / (N + M)\<close>. It is exactly \<open>0\<close> when \<open>N + M = 0\<close>; no
  division by zero takes place.
\<close>

theorem C2_success_rate_rounded:
  "success_rate_percent (get_metrics t1 t2 (record_calls cs (metrics_init t0))) =
     (if 0 < successes cs + failures cs
      then py_round (fmul (int_truediv (int (successes cs))
                                       (int (successes cs + failures cs))) 100) 2
      else 0)
   \<and> \<bar>success_rate_percent (get_metrics t1 t2 (record_calls cs (metrics_init t0)))
        - (if 0 < successes cs + failures cs
           then 100 * real (successes cs) / real (successes cs + failures cs)
           else 0)\<bar> \<le> 1 / 200 + 1 / 10 ^ 12"
proof (cases "0 < successes cs + failures cs")
  case True
  define q where "q = real (successes cs) / real (successes cs + failures cs)"
  have "real (successes cs) \<le> real (successes cs + failures cs)"
    by simp
  moreover have "0 < real (successes cs + failures cs)"
    using True by (simp only: of_nat_0_less_iff)
  ultimately have "0 \<le> q" "q \<le> 1"
    unfolding q_def by (simp_all only: divide_le_eq_1_pos of_nat_0_le_iff divide_nonneg_nonneg)
  then have "\<bar>py_round (fl (fl q * 100)) 2 - 100 * q\<bar> \<le> 1 / 200 + 1 / 10 ^ 12"
    by (rule rounded_rate_near)
  moreover have "fmul (int_truediv (int (successes cs)) (int (successes cs + failures cs))) 100
      = fl (fl q * 100)"
    by (simp add: fmul_def int_truediv_def q_def)
  moreover have "100 * real (successes cs) / real (successes cs + failures cs) = 100 * q"
    by (simp add: q_def)
  ultimately show ?thesis
    using True by (simp only: success_rate_percent_record_calls if_True simp_thms)
next
  case False
  then show ?thesis
    by (simp add: success_rate_percent_record_calls)
qed

text \<open>
  C2, as the spec states it, fails: with one success and two failures the snapshot
  holds the double \<open>33.33\<close>, which is not \<open>100 * 1 / (1 + 2)\<close>.
\<close>

theorem C2_unrounded_counterexample:
  "successes one_of_three = 1 \<and> failures one_of_three = 2
   \<and> success_rate_percent (get_metrics 0 0 (record_calls one_of_three (metrics_init 0)))
       = fl (3333 / 100)
   \<and> success_rate_percent (get_metrics 0 0 (record_calls one_of_three (metrics_init 0)))
       \<noteq> 100 * 1 / (1 + 2)"
proof -
  have n: "successes one_of_three = 1" "failures one_of_three = 2"
    by (simp_all add: one_of_three_def successes_def failures_def)
  have "py_round (fmul (int_truediv 1 3) 100) 2 = fl (3333 / 100)"
    by code_simp
  moreover have "fl (3333 / 100) \<noteq> 100 * 1 / (1 + 2)"
    by code_simp
  ultimately show ?thesis
    using n by (simp add: success_rate_percent_record_calls)
qed

text \<open>
  With 23 successes among 160 calls the quotient times 100 is the double just below
  \<open>14.375\<close>, and the snapshot holds the double \<open>14.37\<close>.
\<close>

lemma success_rate_23_of_160:
  "py_round (fmul (int_truediv 23 160) 100) 2 = fl (1437 / 100)"
  by code_simp

section \<open>NotificationManager: the bounded history\<close>

lemma slice_from_neg: "0 < k \<Longrightarrow> slice_from (- int k) xs = drop (length xs - k) xs"
  by (auto simp: slice_from_def nat_diff_distrib')

lemma notification_history_dispatch:
  "notification_history (dispatch_notification n nm) =
     (if length (notification_history nm) \<ge> 1000
      then drop (length (notification_history nm) - 999) (notification_history nm @ [n])
      else notification_history nm @ [n])"
  using slice_from_neg [of 1000 "notification_history nm @ [n]"]
  by (auto simp: dispatch_notification_def Let_def)

lemma dispatch_all_snoc:
  "dispatch_all (ns @ [n]) nm = dispatch_notification n (dispatch_all ns nm)"
  by (simp add: dispatch_all_def)

text \<open>
  C9. After any sequence \<open>ns\<close> of dispatches on a fresh manager the history is \<open>ns\<close>
  without its first \<open>length ns - 1000\<close> entries: it holds the newest
  \<open>min (length ns) 1000\<close> notifications in dispatch order, the oldest having been
  evicted first. For 10000 dispatches that is the last 1000 of them.
\<close>

theorem C9_history_bounded_fifo:
  "notification_history (dispatch_all ns (notification_manager_init email slack webhook))
     = drop (length ns - 1000) ns
   \<and> length (notification_history
               (dispatch_all ns (notification_manager_init email slack webhook)))
     = min (length ns) 1000"
proof (induction ns rule: rev_induct)
  case Nil
  show ?case by (simp add: dispatch_all_def notification_manager_init_def)
next
  case (snoc n ns)
  show ?case
  proof (cases "length ns < 1000")
    case True
    with snoc show ?thesis
      by (simp add: dispatch_all_snoc notification_history_dispatch)
  next
    case False
    then have "Suc (length ns - 1000) = length ns - 999"
      by arith
    with False snoc show ?thesis
      by (simp add: dispatch_all_snoc notification_history_dispatch)
  qed
qed

section \<open>RetrainingTrigger: the rate limit\<close>

text \<open>
  C4. If \<open>last_retraining\<close> is set and fewer than \<open>min_retraining_interval_hours\<close>
  hours have passed since, \<open>evaluate_retraining_need\<close> returns \<open>should_retrain = False\<close>
  with the single reason \<open>Too soon since last retraining\<close>, whatever the metrics and
  the drift information are; the result holds none of the evaluated metrics and the
  trigger is left as it was.
\<close>

theorem C4_too_soon_short_circuit:
  assumes "last_retraining t = Some previous"
      and "hours_since now previous < real_of_int (min_retraining_interval_hours t)"
  shows "evaluate_retraining_need now now_stamp metrics drift_info t =
           (\<lparr>should_retrain = False,
             reasons = [''Too soon since last retraining''],
             time_since_last_hours = Some (hours_since now previous),
             decision_timestamp = None,
             metrics_evaluated = None\<rparr>, t)"
  using assms by (simp add: evaluate_retraining_need_def too_soon_def)

text \<open>
  One hour after a retraining, with every check in a triggering state, the default
  trigger still answers \<open>Too soon since last retraining\<close>.
\<close>

theorem C4_too_soon_witness:
  "last_retraining (retraining_trigger_init\<lparr>last_retraining := Some 0\<rparr>) = Some 0
   \<and> hours_since 3600000000 0
       < real_of_int (min_retraining_interval_hours
                        (retraining_trigger_init\<lparr>last_retraining := Some 0\<rparr>))
   \<and> evaluate_retraining_need 3600000000 3600000001
        \<lparr>md_success_rate_percent = Some 10, md_total_api_calls = Some 1000,
         md_failed_responses = Some 900, md_avg_response_time_seconds = Some 9\<rparr>
        \<lparr>dd_drift_detected = Some True, dd_drift_score = Some 1\<rparr>
        (retraining_trigger_init\<lparr>last_retraining := Some 0\<rparr>) =
           (\<lparr>should_retrain = False,
             reasons = [''Too soon since last retraining''],
             time_since_last_hours = Some 1,
             decision_timestamp = None,
             metrics_evaluated = None\<rparr>,
            retraining_trigger_init\<lparr>last_retraining := Some 0\<rparr>)"
proof -
  have a: "last_retraining (retraining_trigger_init\<lparr>last_retraining := Some 0\<rparr>) = Some 0"
    by simp
  have b: "hours_since 3600000000 0
       < real_of_int (min_retraining_interval_hours
                        (retraining_trigger_init\<lparr>last_retraining := Some 0\<rparr>))"
    by (simp add: hours_since_def total_seconds_def int_truediv_def fdiv_def
        retraining_trigger_init_def)
  have c: "hours_since 3600000000 0 = 1"
    by (simp add: hours_since_def total_seconds_def int_truediv_def fdiv_def)
  show ?thesis
    using C4_too_soon_short_circuit [OF a b] a b c by simp
qed

section \<open>RetrainingTrigger: the four checks\<close>

lemma evaluate_checks:
  assumes "\<not> too_soon now t"
  shows "should_retrain (fst (evaluate_retraining_need now now_stamp metrics drift_info t)) =
           (check_performance metrics t \<or> check_drift drift_info t
            \<or> check_error_rate metrics t \<or> check_response_time metrics)"
    and "reasons (fst (evaluate_retraining_need now now_stamp metrics drift_info t)) =
           (if check_performance metrics t then [reason_performance metrics t] else [])
           @ (if check_drift drift_info t then [reason_drift drift_info] else [])
           @ (if check_error_rate metrics t then [reason_error_rate metrics] else [])
           @ (if check_response_time metrics then [reason_response_time metrics] else [])"
  using assms
  by (simp_all add: evaluate_retraining_need_def Let_def check_performance_def check_drift_def
      check_error_rate_def check_response_time_def reason_performance_def reason_drift_def
      reason_error_rate_def reason_response_time_def)

text \<open>The doubles \<open>80 / 100\<close> and \<open>0.85\<close>, compared and printed as percentages.\<close>

lemma percent_examples:
  "fmul (fdiv 80 100) 100 = 80"
  "fmul (fl (17 / 20)) 100 = 85"
  "fdiv 80 100 < fl (17 / 20)"
  by code_simp+

lemma format_percent_examples:
  "format_percent 2 (fdiv 80 100) = ''80.00%''"
  "format_percent 2 (fl (17 / 20)) = ''85.00%''"
  by (simp_all add: format_percent_def percent_examples format_fixed_def Let_def
      show_nat.simps zero_pad_def digit_char_def)

text \<open>
  C5. When the short-circuit does not apply, \<open>should_retrain\<close> is true exactly when
  one of the four checks triggers (success rate below the performance threshold;
  drift detected with a score above the drift threshold; enough calls and an error
  rate above 15 percent; average response time above 5 seconds). Every check is
  evaluated whatever the earlier ones gave, and the reasons are the reason strings of
  the triggered checks, in the order of the checks. With a success rate of 100
  percent, no drift detected, no failed response and an average response time of 1
  second nothing triggers, for any performance threshold of at most 1: the result is
  \<open>should_retrain = False\<close> with no reason.
\<close>

theorem C5_four_checks:
  assumes "\<not> too_soon now t"
  shows "should_retrain (fst (evaluate_retraining_need now now_stamp metrics drift_info t)) =
           (check_performance metrics t \<or> check_drift drift_info t
            \<or> check_error_rate metrics t \<or> check_response_time metrics)
       \<and> reasons (fst (evaluate_retraining_need now now_stamp metrics drift_info t)) =
           (if check_performance metrics t then [reason_performance metrics t] else [])
           @ (if check_drift drift_info t then [reason_drift drift_info] else [])
           @ (if check_error_rate metrics t then [reason_error_rate metrics] else [])
           @ (if check_response_time metrics then [reason_response_time metrics] else [])
       \<and> (performance_threshold t \<le> 1 \<longrightarrow>
            should_retrain (fst (evaluate_retraining_need now now_stamp
               \<lparr>md_success_rate_percent = Some 100, md_total_api_calls = calls,
                md_failed_responses = Some 0, md_avg_response_time_seconds = Some 1\<rparr>
               \<lparr>dd_drift_detected = Some False, dd_drift_score = score\<rparr> t)) = False
            \<and> reasons (fst (evaluate_retraining_need now now_stamp
               \<lparr>md_success_rate_percent = Some 100, md_total_api_calls = calls,
                md_failed_responses = Some 0, md_avg_response_time_seconds = Some 1\<rparr>
               \<lparr>dd_drift_detected = Some False, dd_drift_score = score\<rparr> t)) = [])"
proof (intro conjI impI)
  assume "performance_threshold t \<le> 1"
  then have none:
    "\<not> check_performance \<lparr>md_success_rate_percent = Some 100, md_total_api_calls = calls,
         md_failed_responses = Some 0, md_avg_response_time_seconds = Some 1\<rparr> t"
    "\<not> check_drift \<lparr>dd_drift_detected = Some False, dd_drift_score = score\<rparr> t"
    "\<not> check_error_rate \<lparr>md_success_rate_percent = Some 100, md_total_api_calls = calls,
         md_failed_responses = Some 0, md_avg_response_time_seconds = Some 1\<rparr> t"
    "\<not> check_response_time \<lparr>md_success_rate_percent = Some 100, md_total_api_calls = calls,
         md_failed_responses = Some 0, md_avg_response_time_seconds = Some 1\<rparr>"
    using fl_nonneg [of "15 / 100"]
    by (simp_all add: check_performance_def check_drift_def check_error_rate_def
        check_response_time_def get_or_def fdiv_def int_truediv_def)
  show "should_retrain (fst (evaluate_retraining_need now now_stamp
               \<lparr>md_success_rate_percent = Some 100, md_total_api_calls = calls,
                md_failed_responses = Some 0, md_avg_response_time_seconds = Some 1\<rparr>
               \<lparr>dd_drift_detected = Some False, dd_drift_score = score\<rparr> t)) = False"
    using none by (simp only: evaluate_checks(1) [OF assms] simp_thms)
  show "reasons (fst (evaluate_retraining_need now now_stamp
               \<lparr>md_success_rate_percent = Some 100, md_total_api_calls = calls,
                md_failed_responses = Some 0, md_avg_response_time_seconds = Some 1\<rparr>
               \<lparr>dd_drift_detected = Some False, dd_drift_score = score\<rparr> t)) = []"
    using none by (simp only: evaluate_checks(2) [OF assms] if_False append_Nil)
qed (rule evaluate_checks [OF assms])+

text \<open>
  On the default trigger, which has never retrained: a success rate of 80 percent
  triggers the performance check alone, with the reason naming both percentages; the
  healthy metrics of the claim trigger nothing.
\<close>

theorem C5_four_checks_witness:
  "\<not> too_soon 0 retraining_trigger_init
   \<and> performance_threshold retraining_trigger_init \<le> 1
   \<and> should_retrain (fst (evaluate_retraining_need 0 1
        \<lparr>md_success_rate_percent = Some 80, md_total_api_calls = Some 10,
         md_failed_responses = Some 2, md_avg_response_time_seconds = Some 1\<rparr>
        \<lparr>dd_drift_detected = Some False, dd_drift_score = None\<rparr>
        retraining_trigger_init)) = True
   \<and> reasons (fst (evaluate_retraining_need 0 1
        \<lparr>md_success_rate_percent = Some 80, md_total_api_calls = Some 10,
         md_failed_responses = Some 2, md_avg_response_time_seconds = Some 1\<rparr>
        \<lparr>dd_drift_detected = Some False, dd_drift_score = None\<rparr>
        retraining_trigger_init)) = [''Performance below threshold: 80.00% < 85.00%'']
   \<and> should_retrain (fst (evaluate_retraining_need 0 1
        \<lparr>md_success_rate_percent = Some 100, md_total_api_calls = Some 10,
         md_failed_responses = Some 0, md_avg_response_time_seconds = Some 1\<rparr>
        \<lparr>dd_drift_detected = Some False, dd_drift_score = None\<rparr>
        retraining_trigger_init)) = False
   \<and> reasons (fst (evaluate_retraining_need 0 1
        \<lparr>md_success_rate_percent = Some 100, md_total_api_calls = Some 10,
         md_failed_responses = Some 0, md_avg_response_time_seconds = Some 1\<rparr>
        \<lparr>dd_drift_detected = Some False, dd_drift_score = None\<rparr>
        retraining_trigger_init)) = []"
proof -
  have a: "\<not> too_soon 0 retraining_trigger_init"
    by (simp add: too_soon_def retraining_trigger_init_def)
  have "fl (85 / 100) \<le> 1"
    by code_simp
  then have b: "performance_threshold retraining_trigger_init \<le> 1"
    by (simp add: retraining_trigger_init_def)
  have c: "performance_threshold retraining_trigger_init = fl (17 / 20)"
    "min_samples_for_evaluation retraining_trigger_init = 100"
    by (simp_all add: retraining_trigger_init_def)
  show ?thesis
    using a b
      C5_four_checks [OF a, of 1
        "\<lparr>md_success_rate_percent = Some 80, md_total_api_calls = Some 10,
          md_failed_responses = Some 2, md_avg_response_time_seconds = Some 1\<rparr>"
        "\<lparr>dd_drift_detected = Some False, dd_drift_score = None\<rparr>" "Some 10" None]
    by (simp add: c check_performance_def check_drift_def check_error_rate_def
        check_response_time_def reason_performance_def get_or_def format_percent_examples
        percent_examples fl_nonneg)
qed

section \<open>RetrainingTrigger: launching the pipeline\<close>

text \<open>
  C7, as the code has it. \<open>trigger_retraining_pipeline\<close> returns \<open>False\<close> exactly when
  the retraining script exists and launching it raises, and then the trigger is left
  as it was. In every other case, also when the script is not found (the job is
  recorded but not executed), it returns \<open>True\<close> and sets \<open>last_retraining\<close> to the
  clock reading, changing nothing else of the trigger.
\<close>

theorem C7_pipeline_result:
  "fst (trigger_retraining_pipeline now_id now_triggered now_last reason_text t w)
     = (\<not> (script_exists w \<and> popen w = LaunchRaises))
   \<and> fst (snd (trigger_retraining_pipeline now_id now_triggered now_last reason_text t w))
     = (if script_exists w \<and> popen w = LaunchRaises then t
        else t\<lparr>last_retraining := Some now_last\<rparr>)"
  by (simp add: trigger_retraining_pipeline_def save_retraining_job_def Let_def
      split: launch.splits)

text \<open>
  C7, as the spec states it, fails: where the script cannot be located the call
  returns \<open>True\<close> and starts the rate limit.
\<close>

theorem C7_script_missing_counterexample:
  "\<not> script_exists no_script_world
   \<and> fst (trigger_retraining_pipeline 0 0 0 ''drift'' retraining_trigger_init no_script_world)
       = True
   \<and> last_retraining
       (fst (snd (trigger_retraining_pipeline 0 0 0 ''drift'' retraining_trigger_init
                    no_script_world)))
       = Some 0"
  by (simp add: trigger_retraining_pipeline_def save_retraining_job_def Let_def
      no_script_world_def)

section \<open>DriftDetector: the window and the baseline\<close>

lemma recorded_append: "recorded (cs @ cs') = recorded cs @ recorded cs'"
  by (induction cs rule: recorded.induct) simp_all

lemma detector_run_snoc: "detector_run (cs @ [c]) d = detector_step (detector_run cs d) c"
  by (simp add: detector_run_def)

lemma detector_run_append: "detector_run (cs @ cs') d = detector_run cs' (detector_run cs d)"
  by (simp add: detector_run_def)

lemma record_query_fields:
  "window_size (record_query now q d) = window_size d"
  "drift_threshold (record_query now q d) = drift_threshold d"
  by (simp_all add: record_query_def Let_def)

lemma detect_drift_fields:
  "window_size (snd (detect_drift now rank d)) = window_size d"
  "drift_threshold (snd (detect_drift now rank d)) = drift_threshold d"
  "recent_queries (snd (detect_drift now rank d)) = recent_queries d"
  by (simp_all add: detect_drift_def Let_def)

lemma detect_drift_baseline:
  "baseline_stats (snd (detect_drift now rank d)) =
     (if length (recent_queries d) < 50 then baseline_stats d
      else Some (case baseline_stats d of
                   None \<Rightarrow> calculate_statistics (slice_to 50 (recent_queries d))
                 | Some b \<Rightarrow> b))"
  by (simp add: detect_drift_def Let_def)

lemma record_query_recent:
  "recent_queries (record_query now q d) =
     (if int (length (recent_queries d)) + 1 > window_size d
      then slice_from (- window_size d) (recent_queries d @ [q\<lparr>timestamp := Some now\<rparr>])
      else recent_queries d @ [q\<lparr>timestamp := Some now\<rparr>])"
  by (simp add: record_query_def Let_def)

lemma record_query_baseline:
  "baseline_stats (record_query now q d) =
     (if baseline_stats d = None \<and> 50 \<le> length (recent_queries (record_query now q d))
      then Some (calculate_statistics (recent_queries (record_query now q d)))
      else baseline_stats d)"
  by (simp add: record_query_def Let_def)

lemma baseline_step_frozen:
  "baseline_stats d = Some b \<Longrightarrow> baseline_stats (detector_step d c) = Some b"
  by (cases c) (simp_all add: record_query_baseline detect_drift_baseline)

lemma baseline_run_frozen:
  "baseline_stats d = Some b \<Longrightarrow> baseline_stats (detector_run cs d) = Some b"
  by (induction cs rule: rev_induct) (simp_all add: detector_run_def baseline_step_frozen)

lemma detector_run_fields:
  "window_size (detector_run cs d) = window_size d"
  "drift_threshold (detector_run cs d) = drift_threshold d"
proof (induction cs rule: rev_induct)
  case Nil
  { case 1 show ?case by (simp add: detector_run_def) 
  next case 2 show ?case by (simp add: detector_run_def) }
next
  case (snoc c cs)
  { case 1 show ?case using snoc(1)
      by (cases c) (simp_all add: detector_run_snoc record_query_fields detect_drift_fields)
  next case 2 show ?case using snoc(2)
      by (cases c) (simp_all add: detector_run_snoc record_query_fields detect_drift_fields) }
qed

text \<open>The window: the last \<open>w\<close> of the queries recorded.\<close>

lemma window_snoc:
  assumes "0 < w"
  shows "(if int (length (drop (length xs - w) xs)) + 1 > int w
          then slice_from (- int w) (drop (length xs - w) xs @ [x])
          else drop (length xs - w) xs @ [x])
         = drop (length (xs @ [x]) - w) (xs @ [x])"
proof (cases "length xs < w")
  case True
  then show ?thesis by simp
next
  case False
  then have "Suc (length xs) - w = Suc (length xs - w)" "length xs - (length xs - w) = w"
    by arith+
  with False assms show ?thesis
    by (simp add: slice_from_neg)
qed

lemma detector_run_recent_nat:
  assumes "0 < W"
  shows "recent_queries (detector_run cs (drift_detector_init (int W) th))
           = drop (length (recorded cs) - W) (recorded cs)"
proof (induction cs rule: rev_induct)
  case Nil
  show ?case by (simp add: detector_run_def drift_detector_init_def)
next
  case (snoc c cs)
  let ?D = "detector_run cs (drift_detector_init (int W) th)"
  have w: "window_size ?D = int W"
    by (simp add: detector_run_fields drift_detector_init_def)
  show ?case
  proof (cases c)
    case (RecordQuery now q)
    let ?q = "q\<lparr>timestamp := Some now\<rparr>"
    have "recent_queries (detector_run (cs @ [c]) (drift_detector_init (int W) th))
        = (if int (length (drop (length (recorded cs) - W) (recorded cs))) + 1 > int W
           then slice_from (- int W) (drop (length (recorded cs) - W) (recorded cs) @ [?q])
           else drop (length (recorded cs) - W) (recorded cs) @ [?q])"
      by (simp only: detector_run_snoc RecordQuery detector_step.simps record_query_recent
          snoc w)
    also have "\<dots> = drop (length (recorded cs @ [?q]) - W) (recorded cs @ [?q])"
      by (rule window_snoc [OF assms])
    also have "recorded cs @ [?q] = recorded (cs @ [c])"
      by (simp add: recorded_append RecordQuery)
    finally show ?thesis .
  next
    case (DetectDrift now rank)
    then show ?thesis
      by (simp add: detector_run_snoc detect_drift_fields snoc recorded_append)
  qed
qed

lemma detector_run_recent:
  assumes "50 \<le> w"
  shows "recent_queries (detector_run cs (drift_detector_init w th))
           = drop (length (recorded cs) - nat w) (recorded cs)"
proof -
  from assms have "w = int (nat w)" "0 < nat w" by simp_all
  then show ?thesis
    using detector_run_recent_nat [of "nat w" cs th] by simp
qed

lemma detector_run_baseline:
  assumes "50 \<le> w"
  shows "baseline_stats (detector_run cs (drift_detector_init w th))
           = (if 50 \<le> length (recorded cs)
              then Some (calculate_statistics (take 50 (recorded cs))) else None)"
proof (induction cs rule: rev_induct)
  case Nil
  show ?case by (simp add: detector_run_def drift_detector_init_def)
next
  case (snoc c cs)
  have w: "50 \<le> nat w" using assms by simp
  note rec = detector_run_recent [OF assms, of _ th]
  show ?case
  proof (cases c)
    case (RecordQuery now q)
    have len: "length (recorded (cs @ [c])) = Suc (length (recorded cs))"
      using RecordQuery by (simp add: recorded_append)
    show ?thesis
    proof (cases "50 \<le> length (recorded cs)")
      case True
      with snoc RecordQuery show ?thesis
        by (simp add: detector_run_snoc record_query_baseline recorded_append)
    next
      case False
      show ?thesis
      proof (cases "length (recorded cs) = 49")
        case True
        with w have "recent_queries (detector_run (cs @ [c]) (drift_detector_init w th))
            = recorded (cs @ [c])"
          by (simp add: rec len)
        with True snoc False RecordQuery show ?thesis
          using len by (simp add: detector_run_snoc record_query_baseline)
      next
        case F: False
        with False have "\<not> 50 \<le> length (recorded (cs @ [c]))" using len by simp
        moreover from this have
          "\<not> 50 \<le> length (recent_queries (detector_run (cs @ [c]) (drift_detector_init w th)))"
          by (simp add: rec)
        ultimately show ?thesis
          using snoc False RecordQuery
          by (simp add: detector_run_snoc record_query_baseline)
      qed
    qed
  next
    case (DetectDrift now rank)
    have "length (recent_queries (detector_run cs (drift_detector_init w th))) < 50
          \<longleftrightarrow> length (recorded cs) < 50"
      using w by (simp add: rec) arith
    with DetectDrift snoc show ?thesis
      by (simp add: detector_run_snoc detect_drift_baseline recorded_append)
  qed
qed

lemma recorded_map_RecordQuery:
  "recorded (map (RecordQuery now) qs) = map (\<lambda>q. q\<lparr>timestamp := Some now\<rparr>) qs"
  by (induction qs) simp_all

lemma recorded_search_calls:
  "recorded (search_calls n) = replicate n (search_query\<lparr>timestamp := Some 0\<rparr>)"
  unfolding search_calls_def recorded_map_RecordQuery by (rule map_replicate)

lemma recorded_price_calls:
  "recorded (price_calls n) = replicate n (price_query\<lparr>timestamp := Some 1\<rparr>)"
  unfolding price_calls_def recorded_map_RecordQuery by (rule map_replicate)

text \<open>
  C3. A baseline that is set is never changed by a later \<open>record_query\<close> or
  \<open>detect_drift\<close>. On a detector created with a window of at least 50 (the default is
  100), after any sequence of calls the baseline is unset while fewer than 50 queries
  have been recorded, and from the 50th recorded query on it is the statistics of the
  first 50 recorded queries; so it is the same after the 50th query and after any
  longer sequence, 200 queries included.
\<close>

theorem C3_baseline_frozen:
  "(baseline_stats d = Some b \<longrightarrow> baseline_stats (detector_run cs d) = Some b)
   \<and> (50 \<le> w \<longrightarrow>
        baseline_stats (detector_run cs (drift_detector_init w th))
          = (if 50 \<le> length (recorded cs)
             then Some (calculate_statistics (take 50 (recorded cs))) else None))
   \<and> (50 \<le> w \<longrightarrow> 50 \<le> length (recorded cs) \<longrightarrow>
        baseline_stats (detector_run (cs @ cs') (drift_detector_init w th))
          = baseline_stats (detector_run cs (drift_detector_init w th)))"
proof (intro conjI impI)
  assume "baseline_stats d = Some b"
  then show "baseline_stats (detector_run cs d) = Some b"
    by (rule baseline_run_frozen)
next
  assume "50 \<le> w"
  then show "baseline_stats (detector_run cs (drift_detector_init w th))
          = (if 50 \<le> length (recorded cs)
             then Some (calculate_statistics (take 50 (recorded cs))) else None)"
    by (rule detector_run_baseline)
next
  assume w: "50 \<le> w" and n: "50 \<le> length (recorded cs)"
  from n show "baseline_stats (detector_run (cs @ cs') (drift_detector_init w th))
          = baseline_stats (detector_run cs (drift_detector_init w th))"
    by (simp add: detector_run_baseline [OF w] recorded_append)
qed

text \<open>
  Fifty queries of type \<open>search\<close> followed by 150 of type \<open>price_check\<close> on the global
  detector: the baseline after the 200th query is the one set at the 50th.
\<close>

theorem C3_baseline_frozen_witness:
  "50 \<le> (100::int) \<and> 50 \<le> length (recorded (search_calls 50))
   \<and> baseline_stats (detector_run (search_calls 50) drift_detector_global)
       = Some (calculate_statistics (recorded (search_calls 50)))
   \<and> baseline_stats (detector_run (price_calls 150)
         (detector_run (search_calls 50) drift_detector_global))
       = Some (calculate_statistics (recorded (search_calls 50)))
   \<and> baseline_stats (detector_run (search_calls 50 @ price_calls 150) drift_detector_global)
       = baseline_stats (detector_run (search_calls 50) drift_detector_global)"
proof -
  have n: "50 \<le> length (recorded (search_calls 50))"
    by (simp add: recorded_search_calls)
  have t: "take 50 (recorded (search_calls 50)) = recorded (search_calls 50)"
    by (simp add: recorded_search_calls)
  note c3 = C3_baseline_frozen [of _ _ "search_calls 50" 100 "fl (3 / 10)" "price_calls 150"]
  from c3 n t
  have a: "baseline_stats (detector_run (search_calls 50) drift_detector_global)
       = Some (calculate_statistics (recorded (search_calls 50)))"
    by (simp add: drift_detector_global_def)
  from c3 n
  have b: "baseline_stats (detector_run (search_calls 50 @ price_calls 150)
             drift_detector_global)
       = baseline_stats (detector_run (search_calls 50) drift_detector_global)"
    by (simp add: drift_detector_global_def)
  from C3_baseline_frozen
         [of "detector_run (search_calls 50) drift_detector_global"
             "calculate_statistics (recorded (search_calls 50))" "price_calls 150"] a
  have c: "baseline_stats (detector_run (price_calls 150)
         (detector_run (search_calls 50) drift_detector_global))
       = Some (calculate_statistics (recorded (search_calls 50)))"
    by blast
  from n a b c show ?thesis by simp
qed

section \<open>DriftDetector: too few samples\<close>

lemma detector_run_few:
  assumes "50 \<le> w" "length (recorded cs) \<le> 50"
  shows "recent_queries (detector_run cs (drift_detector_init w th)) = recorded cs"
  using assms by (simp add: detector_run_recent)

text \<open>
  C8. On a detector that holds fewer than 50 queries, \<open>detect_drift\<close> returns the
  dictionary for insufficient data, with \<open>drift_detected = False\<close>, the reason and the
  number of samples, and leaves the detector as it was; nothing is raised. On a
  detector that holds 50 queries (or more) it returns a report with \<open>drift_detected\<close>,
  \<open>drift_score\<close>, \<open>threshold\<close>, the baseline statistics and the current statistics.
  On a detector created with a window of at least 50 the first case is that of fewer
  than 50 recorded queries, and after exactly 50 recorded queries the report has the
  statistics of these 50 as its baseline and as its current statistics.
\<close>

theorem C8_insufficient_or_report:
  "(length (recent_queries d) < 50 \<longrightarrow>
      detect_drift now rank d =
        (Insufficient \<lparr>insufficient_drift_detected = False,
                       reason = ''Insufficient data for drift detection'',
                       samples = int (length (recent_queries d))\<rparr>, d))
   \<and> (50 \<le> length (recent_queries d) \<longrightarrow>
        (\<exists>r. fst (detect_drift now rank d) = Report r
           \<and> threshold r = drift_threshold d
           \<and> current_stats r = calculate_statistics (slice_from (- 50) (recent_queries d))
           \<and> baseline_stats (snd (detect_drift now rank d)) = Some (report_baseline_stats r)
           \<and> drift_score r
               = np_round (calculate_drift_score rank (report_baseline_stats r) (current_stats r)) 3
           \<and> drift_detected r
               = (drift_threshold d
                    < calculate_drift_score rank (report_baseline_stats r) (current_stats r))))
   \<and> (50 \<le> w \<longrightarrow> length (recorded cs) < 50 \<longrightarrow>
        fst (detect_drift now rank (detector_run cs (drift_detector_init w th))) =
          Insufficient \<lparr>insufficient_drift_detected = False,
                        reason = ''Insufficient data for drift detection'',
                        samples = int (length (recorded cs))\<rparr>)
   \<and> (50 \<le> w \<longrightarrow> length (recorded cs) = 50 \<longrightarrow>
        (\<exists>r. fst (detect_drift now rank (detector_run cs (drift_detector_init w th))) = Report r
           \<and> report_baseline_stats r = calculate_statistics (recorded cs)
           \<and> current_stats r = calculate_statistics (recorded cs)))"
proof (intro conjI impI)
  show "detect_drift now rank d =
        (Insufficient \<lparr>insufficient_drift_detected = False,
                       reason = ''Insufficient data for drift detection'',
                       samples = int (length (recent_queries d))\<rparr>, d)"
    if "length (recent_queries d) < 50"
    using that by (simp add: detect_drift_def)
next
  show "\<exists>r. fst (detect_drift now rank d) = Report r
           \<and> threshold r = drift_threshold d
           \<and> current_stats r = calculate_statistics (slice_from (- 50) (recent_queries d))
           \<and> baseline_stats (snd (detect_drift now rank d)) = Some (report_baseline_stats r)
           \<and> drift_score r
               = np_round (calculate_drift_score rank (report_baseline_stats r) (current_stats r)) 3
           \<and> drift_detected r
               = (drift_threshold d
                    < calculate_drift_score rank (report_baseline_stats r) (current_stats r))"
    if "50 \<le> length (recent_queries d)"
    using that by (simp add: detect_drift_def Let_def)
next
  assume w: "50 \<le> w" and n: "length (recorded cs) < 50"
  then have "recent_queries (detector_run cs (drift_detector_init w th)) = recorded cs"
    by (simp add: detector_run_few)
  with n show "fst (detect_drift now rank (detector_run cs (drift_detector_init w th))) =
          Insufficient \<lparr>insufficient_drift_detected = False,
                        reason = ''Insufficient data for drift detection'',
                        samples = int (length (recorded cs))\<rparr>"
    by (simp add: detect_drift_def)
next
  assume w: "50 \<le> w" and n: "length (recorded cs) = 50"
  then have recent: "recent_queries (detector_run cs (drift_detector_init w th)) = recorded cs"
    by (simp add: detector_run_few)
  have baseline: "baseline_stats (detector_run cs (drift_detector_init w th))
      = Some (calculate_statistics (recorded cs))"
    using n by (simp add: detector_run_baseline [OF w])
  have current: "slice_from (- 50) (recorded cs) = recorded cs"
    using n slice_from_neg [of 50 "recorded cs"] by simp
  show "\<exists>r. fst (detect_drift now rank (detector_run cs (drift_detector_init w th))) = Report r
           \<and> report_baseline_stats r = calculate_statistics (recorded cs)
           \<and> current_stats r = calculate_statistics (recorded cs)"
    using n by (simp add: detect_drift_def Let_def recent baseline current)
qed

text \<open>
  The fresh global detector, the global detector holding fifty queries, and the
  global detector after ten and after fifty recorded queries.
\<close>

theorem C8_insufficient_or_report_witness:
  "length (recent_queries drift_detector_global) < 50
   \<and> result_drift_detected (fst (detect_drift 0 (\<lambda>k. 0) drift_detector_global)) = False
   \<and> snd (detect_drift 0 (\<lambda>k. 0) drift_detector_global) = drift_detector_global
   \<and> 50 \<le> length (recent_queries fifty_queries)
   \<and> (\<exists>r. fst (detect_drift 0 (\<lambda>k. 0) fifty_queries) = Report r \<and> threshold r = fl (3 / 10))
   \<and> 50 \<le> (100::int)
   \<and> length (recorded (search_calls 10)) < 50
   \<and> result_drift_detected
        (fst (detect_drift 2 (\<lambda>k. 0) (detector_run (search_calls 10) drift_detector_global))) = False
   \<and> length (recorded (search_calls 50)) = 50
   \<and> (\<exists>r. fst (detect_drift 2 (\<lambda>k. 0) (detector_run (search_calls 50) drift_detector_global))
             = Report r
          \<and> report_baseline_stats r = current_stats r)"
proof -
  have a: "length (recent_queries drift_detector_global) < 50"
    by (simp add: drift_detector_global_def drift_detector_init_def)
  have b: "50 \<le> length (recent_queries fifty_queries)"
    by (simp add: fifty_queries_def)
  have c: "drift_threshold fifty_queries = fl (3 / 10)"
    by (simp add: fifty_queries_def drift_detector_global_def drift_detector_init_def)
  have d: "length (recorded (search_calls 10)) < 50" "length (recorded (search_calls 50)) = 50"
    by (simp_all add: recorded_search_calls)
  note i1 = C8_insufficient_or_report [of drift_detector_global 0 "\<lambda>k. 0" 100 "[]" 0, THEN conjunct1]
  note i2 = C8_insufficient_or_report
              [of fifty_queries 0 "\<lambda>k. 0" 100 "[]" 0, THEN conjunct2, THEN conjunct1]
  note i3 = C8_insufficient_or_report
              [of drift_detector_global 2 "\<lambda>k. 0" 100 "search_calls 10" "fl (3 / 10)",
               THEN conjunct2, THEN conjunct2, THEN conjunct1]
  note i4 = C8_insufficient_or_report
              [of drift_detector_global 2 "\<lambda>k. 0" 100 "search_calls 50" "fl (3 / 10)",
               THEN conjunct2, THEN conjunct2, THEN conjunct2]
  from i1 a
  have "detect_drift 0 (\<lambda>k. 0) drift_detector_global =
        (Insufficient \<lparr>insufficient_drift_detected = False,
                       reason = ''Insufficient data for drift detection'',
                       samples = int (length (recent_queries drift_detector_global))\<rparr>,
         drift_detector_global)"
    by blast
  moreover from i2 b c
  have "\<exists>r. fst (detect_drift 0 (\<lambda>k. 0) fifty_queries) = Report r \<and> threshold r = fl (3 / 10)"
    by auto
  moreover from i3 d(1)
  have "result_drift_detected
        (fst (detect_drift 2 (\<lambda>k. 0) (detector_run (search_calls 10) drift_detector_global))) = False"
    by (simp add: drift_detector_global_def)
  moreover from i4 d(2)
  have "\<exists>r. fst (detect_drift 2 (\<lambda>k. 0) (detector_run (search_calls 50) drift_detector_global))
             = Report r
          \<and> report_baseline_stats r = current_stats r"
    by (auto simp: drift_detector_global_def)
  ultimately show ?thesis
    using a b d by simp
qed

section \<open>DriftDetector: histograms and the drift score\<close>

lemma Counter_Nil: "Counter [] = []"
  by (simp add: Counter_def)

lemma Counter_snoc:
  "Counter (xs @ [x]) = dict_set (Counter xs) x (dict_get (Counter xs) x 0 + 1)"
  by (simp add: Counter_def)

lemma distinct_Counter: "distinct (map fst (Counter xs))"
  by (induction xs rule: rev_induct)
     (simp_all add: Counter_Nil Counter_snoc dict_set_def distinct_update)

lemma Counter_eq_Nil: "Counter xs = [] \<longleftrightarrow> xs = []"
proof (cases xs rule: rev_cases)
  case Nil
  then show ?thesis by (simp add: Counter_Nil)
next
  case (snoc ys y)
  have "AList.update k v al \<noteq> []" for k :: 'a and v :: int and al
    by (cases al) simp_all
  with snoc show ?thesis
    by (simp add: Counter_snoc dict_set_def)
qed

lemma Counter_replicate: "Counter (replicate (Suc n) t) = [(t, int (Suc n))]"
proof (induction n)
  case 0
  show ?case by (simp add: Counter_def dict_set_def dict_get_def)
next
  case (Suc n)
  have "replicate (Suc (Suc n)) t = replicate (Suc n) t @ [t]"
    by (simp add: replicate_append_same)
  then have "Counter (replicate (Suc (Suc n)) t)
      = dict_set (Counter (replicate (Suc n) t)) t
          (dict_get (Counter (replicate (Suc n) t)) t 0 + 1)"
    by (simp only: Counter_snoc)
  also have "\<dots> = [(t, int (Suc (Suc n)))]"
    by (simp only: Suc) (simp add: dict_set_def dict_get_def)
  finally show ?case .
qed

lemma sum_list_values_map_of:
  assumes "distinct (map fst d1)" "distinct (map fst d2)" "map_of d1 = map_of d2"
  shows "sum_list (map snd d1) = (sum_list (map snd d2) :: int)"
proof -
  have s: "set d1 = set d2"
    using assms by (simp add: map_of_inject_set)
  have d: "distinct d1" "distinct d2"
    using assms(1,2) by (simp_all add: distinct_map)
  show ?thesis
    by (simp add: sum_list_distinct_conv_sum_set d s)
qed

lemma dict_get_normalised:
  "dict_get (map (\<lambda>(k, v). (k, int_truediv v c)) d) key 0
     = (case map_of d key of None \<Rightarrow> 0 | Some v \<Rightarrow> int_truediv v c)"
  by (simp add: dict_get_def map_of_map split: option.splits)

lemma fsub_self [simp]: "fsub x x = 0"
  by (simp add: fsub_def)

lemma fadd_0_0 [simp]: "fadd 0 0 = 0"
  by (simp add: fadd_def)

lemma fdiv_0 [simp]: "fdiv 0 y = 0"
  by (simp add: fdiv_def)

lemma foldl_fadd_zeros: "foldl (\<lambda>acc k. fadd acc 0) 0 ks = 0"
  by (induction ks) simp_all

lemma distribution_difference_same:
  assumes "distinct (map fst d1)" "distinct (map fst d2)" "map_of d1 = map_of d2"
  shows "distribution_difference rank d1 d2 = 0"
proof -
  have "sum_list (map snd d1) = sum_list (map snd d2)"
    using assms by (rule sum_list_values_map_of)
  then show ?thesis
    unfolding distribution_difference_def Let_def
    by (simp add: dict_get_normalised assms(3) foldl_fadd_zeros)
qed

lemma distribution_difference_disjoint:
  assumes "s \<noteq> p" "0 < n" "0 < m"
  shows "distribution_difference rank [(s, n)] [(p, m)] = 1"
  using assms
  by (simp add: distribution_difference_def Let_def dict_get_def int_truediv_def
      fadd_def fsub_def fdiv_def fl_minus)

lemma fl_distribution_difference [simp]:
  "fl (distribution_difference rank d1 d2) = distribution_difference rank d1 d2"
  by (simp add: distribution_difference_def Let_def fdiv_def)

lemma query_type_distribution_statistics:
  "query_type_distribution (calculate_statistics qs)
     = Counter (map (\<lambda>q. get_or (query_type q) ''unknown'') qs)"
  by (simp add: calculate_statistics_def Let_def)

lemma query_type_distribution_eq_Nil:
  "query_type_distribution (calculate_statistics qs) = [] \<longleftrightarrow> qs = []"
  by (simp add: query_type_distribution_statistics Counter_eq_Nil)

lemma feature_scores_unfold:
  "feature_scores b c =
     (if 0 < avg_query_length b
      then [min (fdiv \<bar>fsub (avg_query_length c) (avg_query_length b)\<bar> (avg_query_length b)) 1]
      else [])
     @ (if 0 < avg_properties_returned b
        then [min (fdiv \<bar>fsub (avg_properties_returned c) (avg_properties_returned b)\<bar>
                     (avg_properties_returned b)) 1] else [])
     @ (if 0 < stats_avg_response_time b
        then [min (fdiv \<bar>fsub (stats_avg_response_time c) (stats_avg_response_time b)\<bar>
                     (stats_avg_response_time b)) 1] else [])"
  by (simp add: feature_scores_def numerical_features_def Let_def)

lemma feature_scores_length: "length (feature_scores b c) \<le> 3"
  by (simp add: feature_scores_unfold)

lemma feature_scores_nonneg: "x \<in> set (feature_scores b c) \<Longrightarrow> 0 \<le> x"
  by (auto simp: feature_scores_unfold fdiv_def intro!: fl_nonneg split: if_splits)

lemma feature_scores_equal_means:
  assumes "avg_query_length b = avg_query_length c"
      and "avg_properties_returned b = avg_properties_returned c"
      and "stats_avg_response_time b = stats_avg_response_time c"
  shows "feature_scores b c = replicate (length (feature_scores b c)) 0"
  using assms by (simp add: feature_scores_unfold)

text \<open>The mean that numpy forms of fewer than 8 scores.\<close>

lemma np_mean_short:
  "length xs < 8 \<Longrightarrow> np_mean xs = fdiv (foldl fadd 0 (map fl xs)) (real (length xs))"
  by (simp add: np_mean_def pairwise_sum.simps)

lemma foldl_fadd_replicate_0: "foldl fadd 0 (replicate k 0) = 0"
  by (induction k) simp_all

lemma np_mean_zeros_and:
  assumes "k < 7" "fl x = x"
  shows "np_mean (replicate k 0 @ [x]) = fdiv x (real k + 1)"
  using assms by (simp add: np_mean_short foldl_fadd_replicate_0 fadd_def add.commute)

lemma np_mean_zeros:
  assumes "k < 8"
  shows "np_mean (replicate k 0) = 0"
  using assms by (simp add: np_mean_short foldl_fadd_replicate_0)

lemma calculate_drift_score_unfold:
  "calculate_drift_score rank b c =
     (if query_type_distribution b \<noteq> [] \<and> query_type_distribution c \<noteq> []
      then np_mean (feature_scores b c
             @ [distribution_difference rank (query_type_distribution b)
                  (query_type_distribution c)])
      else if feature_scores b c \<noteq> [] then np_mean (feature_scores b c) else 0)"
  by (simp add: calculate_drift_score_def Let_def)

lemma drift_score_equal_means:
  assumes "avg_query_length b = avg_query_length c"
      and "avg_properties_returned b = avg_properties_returned c"
      and "stats_avg_response_time b = stats_avg_response_time c"
  shows "calculate_drift_score rank b c =
     (if query_type_distribution b \<noteq> [] \<and> query_type_distribution c \<noteq> []
      then fdiv (distribution_difference rank (query_type_distribution b)
                   (query_type_distribution c))
             (real (length (feature_scores b c)) + 1)
      else 0)"
proof -
  let ?k = "length (feature_scores b c)"
  have z: "feature_scores b c = replicate ?k 0"
    using assms by (rule feature_scores_equal_means)
  have k: "?k < 7"
    using feature_scores_length [of b c] by simp
  have "np_mean (feature_scores b c
          @ [distribution_difference rank (query_type_distribution b)
               (query_type_distribution c)])
      = fdiv (distribution_difference rank (query_type_distribution b)
                (query_type_distribution c)) (real ?k + 1)"
    by (subst z) (rule np_mean_zeros_and [OF k fl_distribution_difference])
  moreover have "np_mean (feature_scores b c) = 0"
    by (subst z) (rule np_mean_zeros, use k in simp)
  ultimately show ?thesis
    by (simp add: calculate_drift_score_unfold)
qed

lemmas statistics_simps =
  calculate_statistics_def get_or_def search_query_def price_query_def double_eval

lemma fl_quarter: "fl (1 / 4) = 1 / 4"
  by code_simp

text \<open>
  C1, as the code has it. For two lists of recorded queries whose mean query length,
  mean result count and mean latency are identical, every numeric component of the
  drift score is 0, and the score is the distance between the two query-type
  histograms divided by the number of components (0 if one of the lists is empty).
  So the score is 0 if, in addition, the two query-type histograms are the same
  dictionary. This holds for every order in which the keys of the histograms are
  visited.
\<close>

theorem C1_equal_means_score:
  assumes "avg_query_length (calculate_statistics qs1)
             = avg_query_length (calculate_statistics qs2)"
      and "avg_properties_returned (calculate_statistics qs1)
             = avg_properties_returned (calculate_statistics qs2)"
      and "stats_avg_response_time (calculate_statistics qs1)
             = stats_avg_response_time (calculate_statistics qs2)"
  shows "calculate_drift_score rank (calculate_statistics qs1) (calculate_statistics qs2) =
           (if qs1 \<noteq> [] \<and> qs2 \<noteq> []
            then fdiv (distribution_difference rank
                         (query_type_distribution (calculate_statistics qs1))
                         (query_type_distribution (calculate_statistics qs2)))
                   (real (length (feature_scores (calculate_statistics qs1)
                                                 (calculate_statistics qs2))) + 1)
            else 0)
       \<and> (map_of (query_type_distribution (calculate_statistics qs1))
            = map_of (query_type_distribution (calculate_statistics qs2)) \<longrightarrow>
          calculate_drift_score rank (calculate_statistics qs1) (calculate_statistics qs2)
            = 0)"
proof (intro conjI impI)
  show "calculate_drift_score rank (calculate_statistics qs1) (calculate_statistics qs2) =
           (if qs1 \<noteq> [] \<and> qs2 \<noteq> []
            then fdiv (distribution_difference rank
                         (query_type_distribution (calculate_statistics qs1))
                         (query_type_distribution (calculate_statistics qs2)))
                   (real (length (feature_scores (calculate_statistics qs1)
                                                 (calculate_statistics qs2))) + 1)
            else 0)"
    by (simp only: drift_score_equal_means [OF assms] query_type_distribution_eq_Nil)
next
  assume "map_of (query_type_distribution (calculate_statistics qs1))
            = map_of (query_type_distribution (calculate_statistics qs2))"
  then have "distribution_difference rank
               (query_type_distribution (calculate_statistics qs1))
               (query_type_distribution (calculate_statistics qs2)) = 0"
    by (intro distribution_difference_same)
       (simp_all add: query_type_distribution_statistics distinct_Counter)
  then show "calculate_drift_score rank (calculate_statistics qs1) (calculate_statistics qs2)
      = 0"
    by (simp add: drift_score_equal_means [OF assms])
qed

text \<open>
  A query of each type in both lists, recorded in opposite orders: same means, same
  histogram, score 0.
\<close>

theorem C1_equal_means_score_witness:
  "avg_query_length (calculate_statistics [search_query, price_query])
     = avg_query_length (calculate_statistics [price_query, search_query])
   \<and> avg_properties_returned (calculate_statistics [search_query, price_query])
     = avg_properties_returned (calculate_statistics [price_query, search_query])
   \<and> stats_avg_response_time (calculate_statistics [search_query, price_query])
     = stats_avg_response_time (calculate_statistics [price_query, search_query])
   \<and> map_of (query_type_distribution (calculate_statistics [search_query, price_query]))
     = map_of (query_type_distribution (calculate_statistics [price_query, search_query]))
   \<and> calculate_drift_score (\<lambda>k. 0) (calculate_statistics [search_query, price_query])
        (calculate_statistics [price_query, search_query]) = 0"
proof -
  have a: "avg_query_length (calculate_statistics [search_query, price_query])
     = avg_query_length (calculate_statistics [price_query, search_query])"
    by (simp add: statistics_simps)
  have b: "avg_properties_returned (calculate_statistics [search_query, price_query])
     = avg_properties_returned (calculate_statistics [price_query, search_query])"
    by (simp add: statistics_simps)
  have c: "stats_avg_response_time (calculate_statistics [search_query, price_query])
     = stats_avg_response_time (calculate_statistics [price_query, search_query])"
    by (simp add: statistics_simps)
  have d: "map_of (query_type_distribution (calculate_statistics [search_query, price_query]))
     = map_of (query_type_distribution (calculate_statistics [price_query, search_query]))"
    by (auto simp: calculate_statistics_def Let_def get_or_def search_query_def
        price_query_def Counter_def dict_set_def dict_get_def fun_eq_iff)
  from C1_equal_means_score [OF a b c, of "\<lambda>k. 0"] a b c d show ?thesis
    by blast
qed

text \<open>
  C1, as the spec states it, fails: a query of type \<open>search\<close> against a query of type
  \<open>price_check\<close> with the same length, result count and latency has identical means
  and a drift score of \<open>1 / 4\<close>.
\<close>

theorem C1_type_shift_counterexample:
  "avg_query_length (calculate_statistics [search_query])
     = avg_query_length (calculate_statistics [price_query])
   \<and> avg_properties_returned (calculate_statistics [search_query])
     = avg_properties_returned (calculate_statistics [price_query])
   \<and> stats_avg_response_time (calculate_statistics [search_query])
     = stats_avg_response_time (calculate_statistics [price_query])
   \<and> calculate_drift_score (\<lambda>k. 0) (calculate_statistics [search_query])
        (calculate_statistics [price_query]) = 1 / 4
   \<and> calculate_drift_score (\<lambda>k. 0) (calculate_statistics [search_query])
        (calculate_statistics [price_query]) \<noteq> 0"
proof -
  have m: "avg_query_length (calculate_statistics [search_query]) = 4"
    "avg_query_length (calculate_statistics [price_query]) = 4"
    "avg_properties_returned (calculate_statistics [search_query]) = 5"
    "avg_properties_returned (calculate_statistics [price_query]) = 5"
    "stats_avg_response_time (calculate_statistics [search_query]) = 1"
    "stats_avg_response_time (calculate_statistics [price_query]) = 1"
    by (simp_all add: statistics_simps)
  have h: "query_type_distribution (calculate_statistics [search_query]) = [(''search'', 1)]"
    "query_type_distribution (calculate_statistics [price_query]) = [(''price_check'', 1)]"
    by (simp_all add: calculate_statistics_def Let_def get_or_def search_query_def
        price_query_def Counter_def dict_set_def dict_get_def)
  have dd: "distribution_difference (\<lambda>k. 0) [(''search'', 1)] [(''price_check'', 1)] = 1"
    by (rule distribution_difference_disjoint) simp_all
  have "calculate_drift_score (\<lambda>k. 0) (calculate_statistics [search_query])
        (calculate_statistics [price_query]) = 1 / 4"
    by (simp add: calculate_drift_score_unfold feature_scores_unfold m h dd double_eval
        fl_quarter)
  with m show ?thesis
    by simp
qed

section \<open>DriftDetector: a shift of the query type\<close>

lemma Counter_constant:
  assumes "xs \<noteq> []" "\<forall>x\<in>set xs. f x = t"
  shows "Counter (map f xs) = [(t, int (length xs))]"
proof -
  from assms(1) obtain n where n: "length xs = Suc n"
    by (cases xs) auto
  from assms(2) have "map f xs = replicate (length xs) t"
    by (simp add: map_replicate_const [symmetric] cong: map_cong)
  then show ?thesis
    by (simp only: n Counter_replicate)
qed

lemma type_histogram_constant:
  assumes "qs \<noteq> []" "\<forall>q\<in>set qs. query_type q = Some t"
  shows "query_type_distribution (calculate_statistics qs) = [(t, int (length qs))]"
  unfolding query_type_distribution_statistics
  using assms by (intro Counter_constant) (simp_all add: get_or_def)

text \<open>A double of ordinary size is not below 99 hundredths of the number it rounds.\<close>

lemma fl_lower:
  assumes "1 / 100 \<le> x"
  shows "x * (99 / 100) \<le> fl x"
proof -
  have "(1::real) / 2 ^ 1000 \<le> 1 / 2 ^ 7"
    by (intro divide_left_mono power_increasing) simp_all
  also have "\<dots> \<le> 1 / 100"
    by simp
  finally have "1 / 2 ^ 1000 \<le> \<bar>x\<bar>"
    using assms by simp
  then have "\<bar>fl x - x\<bar> \<le> \<bar>x\<bar> / 2 ^ 53"
    by (rule fl_error_normal)
  moreover have "\<bar>x\<bar> / 2 ^ 53 \<le> \<bar>x\<bar> / 100"
    by (intro divide_left_mono) simp_all
  ultimately have "\<bar>fl x - x\<bar> \<le> \<bar>x\<bar> / 100"
    by (rule order_trans)
  moreover have "\<bar>x\<bar> = x"
    using assms by simp
  ultimately have "x - x / 100 \<le> fl x"
    by (simp only: abs_le_iff) linarith
  then show ?thesis
    by (simp add: field_simps)
qed

lemma foldl_fadd_nonneg:
  assumes "0 \<le> a" "\<forall>x\<in>set xs. 0 \<le> x"
  shows "0 \<le> foldl fadd a xs"
  using assms
proof (induction xs arbitrary: a)
  case Nil
  then show ?case by simp
next
  case (Cons x xs)
  have "0 \<le> fadd a x"
    unfolding fadd_def using Cons.prems by (intro fl_nonneg) simp
  then show ?case
    using Cons by simp
qed

lemma fl_three_tenths: "fl (3 / 10) < 31 / 100"
  by code_simp

text \<open>
  The mean of at most two scores that are not negative and of the score 1 exceeds the
  threshold \<open>0.3\<close>, whatever the additions and the division round to.
\<close>

lemma mean_with_one_detected:
  assumes "\<forall>x\<in>set fs. 0 \<le> x" "length fs < 3"
  shows "fl (3 / 10) < np_mean (fs @ [1])"
proof -
  define S where "S = foldl fadd 0 (map fl fs)"
  define T where "T = fl (S + 1)"
  define n where "n = real (length fs) + 1"
  have S: "0 \<le> S"
    unfolding S_def using assms(1) by (intro foldl_fadd_nonneg) (simp_all add: fl_nonneg)
  have n: "0 < n" "n \<le> 3"
    using assms(2) by (simp_all add: n_def)
  have "(S + 1) * (99 / 100) \<le> T"
    unfolding T_def using S by (intro fl_lower) simp
  with S have T: "99 / 100 \<le> T"
    by simp
  have "T / 3 \<le> T / n"
    using T n by (intro divide_left_mono) simp_all
  with T have Tn: "33 / 100 \<le> T / n"
    by simp
  have "(T / n) * (99 / 100) \<le> fl (T / n)"
    using Tn by (intro fl_lower) simp
  with Tn have "31 / 100 \<le> fl (T / n)"
    by simp
  moreover have "np_mean (fs @ [1]) = fl (T / n)"
    using assms(2)
    by (simp add: np_mean_short fadd_def fdiv_def T_def S_def n_def add.commute)
  ultimately show ?thesis
    using fl_three_tenths by simp
qed

lemma type_shift_report:
  assumes "recorded cs = rs1 @ rs2" "length rs1 = 60" "length rs2 = 50"
      and "\<forall>q\<in>set rs1. query_type q = Some ''search''"
      and "\<forall>q\<in>set rs2. query_type q = Some ''price_check''"
  shows "\<exists>r. fst (detect_drift now rank (detector_run cs drift_detector_global)) = Report r
           \<and> report_baseline_stats r = calculate_statistics (take 50 rs1)
           \<and> current_stats r = calculate_statistics rs2
           \<and> distribution_difference rank (query_type_distribution (report_baseline_stats r))
                (query_type_distribution (current_stats r)) = 1
           \<and> calculate_drift_score rank (report_baseline_stats r) (current_stats r)
               = np_mean (feature_scores (report_baseline_stats r) (current_stats r) @ [1])
           \<and> drift_score r
               = np_round (calculate_drift_score rank (report_baseline_stats r)
                             (current_stats r)) 3
           \<and> threshold r = fl (3 / 10)
           \<and> drift_detected r
               = (fl (3 / 10)
                    < calculate_drift_score rank (report_baseline_stats r) (current_stats r))
           \<and> (length (feature_scores (report_baseline_stats r) (current_stats r)) < 3
                \<longrightarrow> drift_detected r)"
proof -
  let ?D = "detector_run cs drift_detector_global"
  let ?B = "calculate_statistics (take 50 rs1)"
  let ?C = "calculate_statistics rs2"
  have recent: "recent_queries ?D = drop 10 rs1 @ rs2"
    using assms(1-3) by (simp add: drift_detector_global_def detector_run_recent)
  have baseline: "baseline_stats ?D = Some ?B"
    using assms(1-3) by (simp add: drift_detector_global_def detector_run_baseline)
  have th: "drift_threshold ?D = fl (3 / 10)"
    by (simp add: detector_run_fields drift_detector_global_def drift_detector_init_def)
  have current: "slice_from (- 50) (recent_queries ?D) = rs2"
    using assms(2,3) slice_from_neg [of 50 "drop 10 rs1 @ rs2"] by (simp add: recent)
  have "take 50 rs1 \<noteq> []" "\<forall>q\<in>set (take 50 rs1). query_type q = Some ''search''"
    using assms(2,4) by (auto dest: in_set_takeD)
  then have hb: "query_type_distribution ?B = [(''search'', 50)]"
    using type_histogram_constant [of "take 50 rs1" "''search''"] assms(2) by simp
  have "rs2 \<noteq> []"
    using assms(3) by auto
  then have hc: "query_type_distribution ?C = [(''price_check'', 50)]"
    using type_histogram_constant [of rs2 "''price_check''"] assms(3,5) by simp
  have dd: "distribution_difference rank (query_type_distribution ?B)
              (query_type_distribution ?C) = 1"
    unfolding hb hc by (rule distribution_difference_disjoint) simp_all
  have score: "calculate_drift_score rank ?B ?C = np_mean (feature_scores ?B ?C @ [1])"
    by (simp add: calculate_drift_score_unfold dd) (simp add: hb hc)
  have few: "length (feature_scores ?B ?C) < 3
      \<longrightarrow> fl (3 / 10) < calculate_drift_score rank ?B ?C"
    unfolding score by (intro impI mean_with_one_detected ballI feature_scores_nonneg)
  have "fst (detect_drift now rank ?D) =
      Report \<lparr>drift_detected = (fl (3 / 10) < calculate_drift_score rank ?B ?C),
              drift_score = np_round (calculate_drift_score rank ?B ?C) 3,
              threshold = fl (3 / 10),
              report_baseline_stats = ?B,
              current_stats = ?C,
              report_timestamp = now\<rparr>"
    using assms(2,3) by (simp add: detect_drift_def Let_def baseline th current) (simp add: recent)
  with dd score few show ?thesis
    by simp
qed

text \<open>The means of fifty equal numbers that the examples use.\<close>

lemma np_mean_fifty:
  "np_mean (replicate 50 0) = 0"
  "np_mean (replicate 50 1) = 1"
  "np_mean (replicate 50 4) = 4"
  "np_mean (replicate 50 5) = 5"
  by (simp_all add: double_eval)

text \<open>
  The rounding of the doubles shows in the outcome. With a mean query length of
  \<open>1.1\<close> in the baseline and of \<open>0.88\<close> in the current window, and the other two means
  unchanged, the numeric components are \<open>0.2\<close>, 0 and 0 over the reals and the mean
  with the query-type component 1 is the threshold \<open>0.3\<close> itself; in doubles the
  mean exceeds the double \<open>0.3\<close>.
\<close>

lemma drift_score_rounding_example:
  "fl (3 / 10)
     < np_mean [min (fdiv \<bar>fsub (fl (88 / 100)) (fl (11 / 10))\<bar> (fl (11 / 10))) 1, 0, 0, 1]"
  "\<not> (3 / 10 :: real) < (\<bar>88 / 100 - 11 / 10\<bar> / (11 / 10) + 0 + 0 + 1) / 4"
  by code_simp+

text \<open>
  C6, as the code has it. After 60 recorded queries of type \<open>search\<close> followed by 50
  of type \<open>price_check\<close> on the global detector, \<open>detect_drift\<close> returns a report whose
  baseline is the statistics of the first 50 queries and whose current statistics are
  those of the last 50. The query-type component of the drift score is exactly 1, and
  the score is the \<open>numpy.mean\<close> of the numeric components and of it, in double
  precision. The field \<open>drift_score\<close> is the score rounded to three decimals, the
  field \<open>threshold\<close> is the double \<open>0.3\<close>, and drift is reported exactly when the
  score exceeds that double. This is so whenever fewer than three numeric components
  are computable. All of it holds for every order in which the keys of the histograms
  are visited.
\<close>

theorem C6_type_shift:
  assumes "recorded cs = rs1 @ rs2" "length rs1 = 60" "length rs2 = 50"
      and "\<forall>q\<in>set rs1. query_type q = Some ''search''"
      and "\<forall>q\<in>set rs2. query_type q = Some ''price_check''"
  shows "\<exists>r. fst (detect_drift now rank (detector_run cs drift_detector_global)) = Report r
           \<and> report_baseline_stats r = calculate_statistics (take 50 rs1)
           \<and> current_stats r = calculate_statistics rs2
           \<and> distribution_difference rank (query_type_distribution (report_baseline_stats r))
                (query_type_distribution (current_stats r)) = 1
           \<and> calculate_drift_score rank (report_baseline_stats r) (current_stats r)
               = np_mean (feature_scores (report_baseline_stats r) (current_stats r) @ [1])
           \<and> drift_score r
               = np_round (calculate_drift_score rank (report_baseline_stats r)
                             (current_stats r)) 3
           \<and> threshold r = fl (3 / 10)
           \<and> drift_detected r
               = (fl (3 / 10)
                    < calculate_drift_score rank (report_baseline_stats r) (current_stats r))
           \<and> (length (feature_scores (report_baseline_stats r) (current_stats r)) < 3
                \<longrightarrow> drift_detected r)"
  using assms by (rule type_shift_report)

text \<open>
  Queries that carry their type only: no numeric component is computable, the score
  is 1 and drift is reported.
\<close>

theorem C6_type_shift_witness:
  "recorded type_only_shift
     = replicate 60 (type_only ''search''\<lparr>timestamp := Some 0\<rparr>)
       @ replicate 50 (type_only ''price_check''\<lparr>timestamp := Some 1\<rparr>)
   \<and> length (replicate 60 (type_only ''search''\<lparr>timestamp := Some 0\<rparr>)) = 60
   \<and> length (replicate 50 (type_only ''price_check''\<lparr>timestamp := Some 1\<rparr>)) = 50
   \<and> query_type (type_only ''search''\<lparr>timestamp := Some 0\<rparr>) = Some ''search''
   \<and> query_type (type_only ''price_check''\<lparr>timestamp := Some 1\<rparr>) = Some ''price_check''
   \<and> feature_scores
        (calculate_statistics
           (take 50 (replicate 60 (type_only ''search''\<lparr>timestamp := Some 0\<rparr>))))
        (calculate_statistics (replicate 50 (type_only ''price_check''\<lparr>timestamp := Some 1\<rparr>)))
       = []
   \<and> result_drift_detected
        (fst (detect_drift 2 (\<lambda>k. 0) (detector_run type_only_shift drift_detector_global)))
       = True"
proof -
  let ?rs1 = "replicate 60 (type_only ''search''\<lparr>timestamp := Some 0\<rparr>)"
  let ?rs2 = "replicate 50 (type_only ''price_check''\<lparr>timestamp := Some 1\<rparr>)"
  have a: "recorded type_only_shift = ?rs1 @ ?rs2"
    unfolding type_only_shift_def recorded_append recorded_map_RecordQuery
    by (simp only: map_replicate)
  have b: "length ?rs1 = 60" "length ?rs2 = 50"
    by simp_all
  have c: "\<forall>q\<in>set ?rs1. query_type q = Some ''search''"
    by (simp add: type_only_def)
  have d: "\<forall>q\<in>set ?rs2. query_type q = Some ''price_check''"
    by (simp add: type_only_def)
  have e: "feature_scores (calculate_statistics (take 50 ?rs1)) (calculate_statistics ?rs2) = []"
    by (simp add: feature_scores_unfold calculate_statistics_def Let_def get_or_def
        type_only_def np_mean_fifty)
  from C6_type_shift [OF a b c d, of 2 "\<lambda>k. 0"] e
  have "result_drift_detected
        (fst (detect_drift 2 (\<lambda>k. 0) (detector_run type_only_shift drift_detector_global)))
       = True"
    by auto
  with a b e show ?thesis
    by (simp add: type_only_def)
qed

text \<open>
  C6, as the spec states it, fails: when the 60 queries of type \<open>search\<close> and the 50
  of type \<open>price_check\<close> agree on length, result count and latency, the three numeric
  components are 0, the score is \<open>1 / 4\<close>, below the threshold, and no drift is
  reported.
\<close>

theorem C6_no_drift_counterexample:
  "recorded (search_calls 60 @ price_calls 50)
     = replicate 60 (search_query\<lparr>timestamp := Some 0\<rparr>)
       @ replicate 50 (price_query\<lparr>timestamp := Some 1\<rparr>)
   \<and> query_type (search_query\<lparr>timestamp := Some 0\<rparr>) = Some ''search''
   \<and> query_type (price_query\<lparr>timestamp := Some 1\<rparr>) = Some ''price_check''
   \<and> calculate_drift_score (\<lambda>k. 0)
        (calculate_statistics (take 50 (replicate 60 (search_query\<lparr>timestamp := Some 0\<rparr>))))
        (calculate_statistics (replicate 50 (price_query\<lparr>timestamp := Some 1\<rparr>)))
       = 1 / 4
   \<and> result_drift_detected
        (fst (detect_drift 2 (\<lambda>k. 0)
               (detector_run (search_calls 60 @ price_calls 50) drift_detector_global)))
       = False"
proof -
  let ?rs1 = "replicate 60 (search_query\<lparr>timestamp := Some 0\<rparr>)"
  let ?rs2 = "replicate 50 (price_query\<lparr>timestamp := Some 1\<rparr>)"
  have a: "recorded (search_calls 60 @ price_calls 50) = ?rs1 @ ?rs2"
    by (simp only: recorded_append recorded_search_calls recorded_price_calls)
  have b: "length ?rs1 = 60" "length ?rs2 = 50"
    by simp_all
  have c: "\<forall>q\<in>set ?rs1. query_type q = Some ''search''"
    by (simp add: search_query_def)
  have d: "\<forall>q\<in>set ?rs2. query_type q = Some ''price_check''"
    by (simp add: price_query_def)
  have e: "feature_scores (calculate_statistics (take 50 ?rs1)) (calculate_statistics ?rs2)
      = [0, 0, 0]"
    by (simp add: feature_scores_unfold calculate_statistics_def Let_def get_or_def
        search_query_def price_query_def np_mean_fifty)
  have f: "np_mean [0, 0, 0, 1] = 1 / 4"
    by (simp add: double_eval fl_quarter)
  have g: "\<not> fl (3 / 10) < 1 / 4"
    by code_simp
  from type_shift_report [OF a b c d, of 2 "\<lambda>k. 0"] e f g
  have "calculate_drift_score (\<lambda>k. 0) (calculate_statistics (take 50 ?rs1))
          (calculate_statistics ?rs2) = 1 / 4
      \<and> result_drift_detected
        (fst (detect_drift 2 (\<lambda>k. 0)
               (detector_run (search_calls 60 @ price_calls 50) drift_detector_global)))
       = False"
    by auto
  with a show ?thesis
    by (simp add: search_query_def price_query_def)
qed

end
